theory Spec2Isabelle
  imports Complex_Main "HOL-Library.Monad_Syntax"
begin

section \<open>Values of the host language\<close>

text \<open>
  The program is JavaScript. Its numbers are modelled as exact rationals: the scale
  factors \<open>0.8\<close> and \<open>0.2\<close> are \<open>4/5\<close> and \<open>1/5\<close>, and the rounding of IEEE doubles
  is not part of this first model, which serves the properties that depend only on the
  order of the numbers computed. The properties that depend on sums cancelling are
  stated over a second model, further down, in which every operation rounds as a
  double does. Counts, indices and time values are integers.
  A call that throws (reading a property of \<open>undefined\<close>) has the value \<open>None\<close>.
\<close>

type_synonym number = rat

text \<open>
  A \<open>Date\<close> object is its time value, the milliseconds since 1970-01-01T00:00Z.
  The calendar methods \<open>getFullYear\<close> and \<open>getMonth\<close> and the constructor
  \<open>new Date(year, 0, 1)\<close> read the host's time zone, which is taken to be UTC.
  The day number is turned into a civil date of the proleptic Gregorian calendar.
\<close>

datatype jsdate = Date (getTime: int)

definition msPerDay :: int where
  "msPerDay = 86400000"

definition Day :: "int \<Rightarrow> int" where
  "Day t = t div msPerDay"

definition civil_from_days :: "int \<Rightarrow> int \<times> int \<times> int" where
  "civil_from_days z0 =
     (let z = z0 + 719468;
          era = z div 146097;
          doe = z mod 146097;
          yoe = (doe - doe div 1460 + doe div 36524 - doe div 146096) div 365;
          y = yoe + era * 400;
          doy = doe - (365 * yoe + yoe div 4 - yoe div 100);
          mp = (5 * doy + 2) div 153;
          d = doy - (153 * mp + 2) div 5 + 1;
          m = (if mp < 10 then mp + 3 else mp - 9)
      in (if m \<le> 2 then y + 1 else y, m, d))"

definition days_from_civil :: "int \<Rightarrow> int \<Rightarrow> int \<Rightarrow> int" where
  "days_from_civil y0 m d =
     (let y = (if m \<le> 2 then y0 - 1 else y0);
          era = y div 400;
          yoe = y mod 400;
          doy = (153 * (if m > 2 then m - 3 else m + 9) + 2) div 5 + d - 1;
          doe = yoe * 365 + yoe div 4 - yoe div 100 + doy
      in era * 146097 + doe - 719468)"

definition getFullYear :: "jsdate \<Rightarrow> int" where
  "getFullYear d = fst (civil_from_days (Day (getTime d)))"

definition getMonth :: "jsdate \<Rightarrow> int" where
  "getMonth d = fst (snd (civil_from_days (Day (getTime d)))) - 1"

text \<open>\<open>new Date('YYYY-MM-DD')\<close>: midnight UTC of that day (month counted from 1).\<close>

definition Date_ISO :: "int \<Rightarrow> int \<Rightarrow> int \<Rightarrow> jsdate" where
  "Date_ISO y m d = Date (days_from_civil y m d * msPerDay)"

text \<open>
  \<open>new Date(year, 0, 1)\<close>: local midnight of 1 January; a year from 0 to 99 means
  1900 + year.
\<close>

definition new_Date_Jan1 :: "int \<Rightarrow> jsdate" where
  "new_Date_Jan1 year =
     (let yr = (if 0 \<le> year \<and> year \<le> 99 then 1900 + year else year)
      in Date (days_from_civil yr 1 1 * msPerDay))"

text \<open>The remainder operator \<open>%\<close> truncates: the result has the sign of the dividend.\<close>

definition js_rem :: "int \<Rightarrow> int \<Rightarrow> int" where
  "js_rem a b = (if a < 0 then - ((- a) mod \<bar>b\<bar>) else a mod \<bar>b\<bar>)"

text \<open>\<open>Number.prototype.toString\<close> on an integer, \<open>padStart\<close>, \<open>repeat\<close>.\<close>

fun digits :: "nat \<Rightarrow> string" where
  "digits n =
     (if n < 10 then [''0123456789'' ! n]
      else digits (n div 10) @ [''0123456789'' ! (n mod 10)])"

declare digits.simps [simp del]

definition toString :: "int \<Rightarrow> string" where
  "toString i = (if i < 0 then CHR ''-'' # digits (nat (- i)) else digits (nat i))"

definition padStart :: "string \<Rightarrow> nat \<Rightarrow> char \<Rightarrow> string" where
  "padStart s n c = replicate (n - length s) c @ s"

definition repeat :: "char \<Rightarrow> nat \<Rightarrow> string" where
  "repeat c n = replicate n c"

section \<open>Module state of timeline.js\<close>

record event =
  event_id :: string
  title :: string
  date :: jsdate

record canvas =
  width :: nat
  height :: nat

text \<open>An entry of \<open>processedNodePositions\<close>, published as \<open>window.timelineNodePositions\<close>.\<close>

record node_position =
  np_id :: string
  np_x :: number
  np_y :: number
  np_width :: number
  np_height :: number
  np_index :: nat
  np_originalTitle :: string

text \<open>What one call of \<open>drawNode\<close> puts on the canvas: the connector and three text lines.\<close>

record drawn_node =
  dn_font :: nat
  dn_boxColor :: string
  dn_x :: number
  dn_y :: number
  dn_lineTo_y :: number
  dn_boxX :: number
  dn_boxY :: number
  dn_top :: string
  dn_middle :: string
  dn_bottom :: string

text \<open>
  A date label put on the canvas: the text and its anchor X. The two dash runs beside
  it are placed from the measured text width and are not modelled. An \<open>undefined\<close>
  date string is \<open>None\<close>.
\<close>

record label =
  lb_text :: "string option"
  lb_x :: number

text \<open>
  What the loop of \<open>drawTimeline\<close> accumulates: its locals \<open>drawnDates\<close> (a Set, kept
  in insertion order) and \<open>processedNodePositions\<close>, and the nodes and labels drawn.
\<close>

record frame =
  drawnDates :: "string option list"
  processedNodePositions :: "node_position list"
  nodes :: "drawn_node list"
  labels :: "label list"

text \<open>
  The module variables, and the two properties of \<open>window\<close> that the program reads
  back: \<open>window.timelineNodePositions\<close>, assigned at the end of \<open>drawTimeline\<close>, and
  \<open>window.selectedNodeIndex\<close>, which interaction.js reads and no statement of the
  program assigns (the module variable \<open>selectedNodeIndex\<close> is declared with \<open>let\<close>
  and is not a property of \<open>window\<close>). \<open>None\<close> is \<open>undefined\<close>. The canvas and its
  context are \<open>None\<close> until \<open>initTimeline\<close> has run.
\<close>

record state =
  currentZoomLevel :: int
  canvas :: "canvas option"
  timelineData :: "event list"
  timelineOffsetX :: number
  selectedNodeIndex :: int
  rendered :: "frame option"
  window_timelineNodePositions :: "node_position list option"
  window_selectedNodeIndex :: "int option"

definition TILE_SIZE :: number where
  "TILE_SIZE = 10"

definition NODE_HEIGHT :: number where
  "NODE_HEIGHT = TILE_SIZE * 5"

definition TIMELINE_Y :: number where
  "TIMELINE_Y = 200"

text \<open>The data and the initial values of the module variables (lines 7 to 26).\<close>

definition seed_timelineData :: "event list" where
  "seed_timelineData =
     [\<lparr>event_id = ''st_tng'', title = ''Star Trek: The Next Generation'', date = Date_ISO 1987 9 28\<rparr>,
      \<lparr>event_id = ''st_ds9'', title = ''Star Trek: Deep Space Nine'', date = Date_ISO 1993 1 3\<rparr>,
      \<lparr>event_id = ''st_voy'', title = ''Star Trek: Voyager'', date = Date_ISO 1995 1 16\<rparr>,
      \<lparr>event_id = ''st_ent'', title = ''Star Trek: Enterprise'', date = Date_ISO 2001 9 26\<rparr>,
      \<lparr>event_id = ''st_dsc'', title = ''Star Trek: Discovery'', date = Date_ISO 2017 9 24\<rparr>,
      \<lparr>event_id = ''st_pic'', title = ''Star Trek: Picard'', date = Date_ISO 2020 1 23\<rparr>,
      \<lparr>event_id = ''st_low'', title = ''Star Trek: Lower Decks'', date = Date_ISO 2020 8 6\<rparr>,
      \<lparr>event_id = ''st_pro'', title = ''Star Trek: Prodigy'', date = Date_ISO 2021 10 28\<rparr>,
      \<lparr>event_id = ''st_snw'', title = ''Star Trek: Strange New Worlds'', date = Date_ISO 2022 5 5\<rparr>]"

text \<open>
  The state once \<open>initTimeline\<close> has stored a canvas of the given size; the list is
  already in the order the sort at load time gives it.
\<close>

definition initial_state :: "nat \<Rightarrow> nat \<Rightarrow> event list \<Rightarrow> state" where
  "initial_state w h evs =
     \<lparr>currentZoomLevel = 1,
      canvas = Some \<lparr>width = w, height = h\<rparr>,
      timelineData = evs,
      timelineOffsetX = 0,
      selectedNodeIndex = - 1,
      rendered = None,
      window_timelineNodePositions = None,
      window_selectedNodeIndex = None\<rparr>"

section \<open>timeline.js\<close>

definition getFontSize :: "state \<Rightarrow> nat" where
  "getFontSize st =
     (if currentZoomLevel st = 1 then 12
      else if currentZoomLevel st = 2 then 10
      else if currentZoomLevel st = 3 then 8
      else 12)"

definition getNodeCharLimit :: "state \<Rightarrow> nat" where
  "getNodeCharLimit st =
     (if currentZoomLevel st = 1 then 15
      else if currentZoomLevel st = 2 then 10
      else if currentZoomLevel st = 3 then 3
      else 15)"

definition truncateText :: "string \<Rightarrow> nat \<Rightarrow> string" where
  "truncateText text limit =
     (if length text > limit then take limit text @ ''...'' else text)"

text \<open>
  \<open>getDateX\<close> reads \<open>timelineData[0].date\<close>, which throws on an empty collection.
\<close>

definition getDateX :: "state \<Rightarrow> jsdate \<Rightarrow> number option" where
  "getDateX st d =
     (case timelineData st of
        [] \<Rightarrow> None
      | node0 # _ \<Rightarrow>
          (let minDate = date node0;
               diffTime = \<bar>getTime d - getTime minDate\<bar>;
               diffDays = \<lceil>(of_int diffTime :: rat) / (1000 * 60 * 60 * 24)\<rceil>;
               scaleFactor =
                 (if currentZoomLevel st = 1 then 3
                  else if currentZoomLevel st = 2 then 4 / 5
                  else if currentZoomLevel st = 3 then 1 / 5
                  else 3)
           in Some (of_int diffDays * scaleFactor)))"

definition drawNode :: "state \<Rightarrow> number \<Rightarrow> number \<Rightarrow> string \<Rightarrow> bool \<Rightarrow> drawn_node" where
  "drawNode st x y ttl isSelected =
     (let charLimit = getNodeCharLimit st;
          displayTitle = truncateText ttl charLimit;
          nodeWidth = of_nat (length displayTitle) * TILE_SIZE + TILE_SIZE * 4;
          boxColor = (if isSelected then ''yellow'' else ''white'');
          boxX = x - nodeWidth / 2;
          boxY = y - NODE_HEIGHT;
          border = ''+'' @ repeat CHR ''-'' (nat \<lfloor>nodeWidth / TILE_SIZE - 2\<rfloor>) @ ''*''
      in \<lparr>dn_font = getFontSize st,
          dn_boxColor = boxColor,
          dn_x = x,
          dn_y = y,
          dn_lineTo_y = boxY + NODE_HEIGHT / 2,
          dn_boxX = boxX,
          dn_boxY = boxY,
          dn_top = border,
          dn_middle = ''<-|'' @ displayTitle @ ''|->'',
          dn_bottom = border\<rparr>)"

text \<open>
  The date label of a node (the \<open>switch\<close> of lines 214 to 228): the date string, the
  key that guards against duplicates, and the anchor X. No case of the switch matches
  a zoom level outside 1 to 3, and both strings stay \<open>undefined\<close>.
\<close>

definition dateLabel :: "state \<Rightarrow> event \<Rightarrow> number \<Rightarrow> (string option \<times> string option \<times> number) option" where
  "dateLabel st node nodeX =
     (if currentZoomLevel st = 1 then
        (let dateString = toString (getFullYear (date node)) @ ''-''
                            @ padStart (toString (getMonth (date node) + 1)) 2 CHR ''0''
         in Some (Some dateString, Some dateString, nodeX))
      else if currentZoomLevel st = 2 then
        (let dateString = toString (getFullYear (date node))
         in Some (Some dateString, Some dateString, nodeX))
      else if currentZoomLevel st = 3 then
        (let dateString = CHR 0x27 # drop 2 (toString (getFullYear (date node)));
             dateKey = take 3 dateString @ ''0''
         in case getDateX st (new_Date_Jan1
                   (getFullYear (date node) - js_rem (getFullYear (date node)) 10)) of
              None \<Rightarrow> None
            | Some x \<Rightarrow> Some (Some dateString, Some dateKey, x + timelineOffsetX st))
      else Some (None, None, nodeX))"

text \<open>\<open>Array.prototype.forEach\<close> with the index, over a callback that may throw.\<close>

fun forEach :: "('a \<Rightarrow> nat \<Rightarrow> 's \<Rightarrow> 's option) \<Rightarrow> 'a list \<Rightarrow> nat \<Rightarrow> 's \<Rightarrow> 's option" where
  "forEach f [] index s = Some s"
| "forEach f (x # xs) index s =
     (case f x index s of None \<Rightarrow> None | Some s' \<Rightarrow> forEach f xs (Suc index) s')"

text \<open>The guard of line 189 and the record pushed in lines 193 to 205.\<close>

definition inView :: "canvas \<Rightarrow> number \<Rightarrow> bool" where
  "inView cv nodeX = (nodeX > - 200 \<and> nodeX < of_nat (width cv) + 200)"

definition nodePosition :: "state \<Rightarrow> event \<Rightarrow> nat \<Rightarrow> number \<Rightarrow> node_position" where
  "nodePosition st node index nodeX =
     (let charLimit = getNodeCharLimit st;
          displayTitle = truncateText (title node) charLimit;
          nodeWidth = of_nat (length displayTitle) * TILE_SIZE + TILE_SIZE * 4
      in \<lparr>np_id = event_id node,
          np_x = nodeX - nodeWidth / 2,
          np_y = TIMELINE_Y - NODE_HEIGHT,
          np_width = nodeWidth,
          np_height = TILE_SIZE * 3,
          np_index = index,
          np_originalTitle = title node\<rparr>)"

text \<open>The callback of the loop in \<open>drawTimeline\<close> (lines 185 to 246).\<close>

definition drawTimeline_each :: "state \<Rightarrow> canvas \<Rightarrow> event \<Rightarrow> nat \<Rightarrow> frame \<Rightarrow> frame option" where
  "drawTimeline_each st cv node index fr =
     (case getDateX st (date node) of
        None \<Rightarrow> None
      | Some vx \<Rightarrow>
          (let nodeX = vx + timelineOffsetX st;
               fr1 =
                 (if inView cv nodeX then
                    (let isSelected = (int index = selectedNodeIndex st)
                     in fr\<lparr>nodes := nodes fr @ [drawNode st nodeX TIMELINE_Y (title node) isSelected],
                           processedNodePositions := processedNodePositions fr @
                             [nodePosition st node index nodeX]\<rparr>)
                  else fr)
           in case dateLabel st node nodeX of
                None \<Rightarrow> None
              | Some (dateString, dateKey, dateX) \<Rightarrow>
                  Some (if dateKey \<notin> set (drawnDates fr1) then
                          fr1\<lparr>labels := labels fr1 @ [\<lparr>lb_text = dateString, lb_x = dateX\<rparr>],
                               drawnDates := drawnDates fr1 @ [dateKey]\<rparr>
                        else fr1)))"

definition empty_frame :: frame where
  "empty_frame = \<lparr>drawnDates = [], processedNodePositions = [], nodes = [], labels = []\<rparr>"

text \<open>
  \<open>drawTimeline\<close> returns at once without a context; otherwise it clears the canvas,
  draws every node and label anew and publishes the positions.
\<close>

definition drawTimeline :: "state \<Rightarrow> state option" where
  "drawTimeline st =
     (case canvas st of
        None \<Rightarrow> Some st
      | Some cv \<Rightarrow>
          (case forEach (drawTimeline_each st cv) (timelineData st) 0 empty_frame of
             None \<Rightarrow> None
           | Some fr \<Rightarrow>
               Some (st\<lparr>rendered := Some fr,
                        window_timelineNodePositions := Some (processedNodePositions fr)\<rparr>)))"

definition scrollTimeline :: "state \<Rightarrow> number \<Rightarrow> state option" where
  "scrollTimeline st deltaX =
     drawTimeline (st\<lparr>timelineOffsetX := timelineOffsetX st + deltaX\<rparr>)"

definition zoomTimeline :: "state \<Rightarrow> int \<Rightarrow> state option" where
  "zoomTimeline st direction =
     (let z0 = currentZoomLevel st + direction;
          z1 = (if z0 < 1 then 1 else z0);
          z2 = (if z1 > 3 then 3 else z1)
      in drawTimeline (st\<lparr>currentZoomLevel := z2\<rparr>))"

text \<open>
  An index handed to \<open>selectNode\<close> is an integer or, when interaction.js computed it
  from \<open>undefined\<close>, \<open>NaN\<close>; every comparison with \<open>NaN\<close> is false.
\<close>

datatype jsindex = Num int | NaN

definition selectNode :: "state \<Rightarrow> jsindex \<Rightarrow> state option" where
  "selectNode st index =
     (case index of
        Num i \<Rightarrow>
          (if i \<ge> 0 \<and> i < int (length (timelineData st)) then
             (let st1 = st\<lparr>selectedNodeIndex := i\<rparr>
              in case getDateX st1 (date (timelineData st1 ! nat (selectedNodeIndex st1))) of
                   None \<Rightarrow> None
                 | Some vx \<Rightarrow>
                     (let nodeX = vx + timelineOffsetX st1
                      in case canvas st1 of
                           None \<Rightarrow> None
                         | Some cv \<Rightarrow>
                             (let screenCenterX = of_nat (width cv) / 2;
                                  scrollDelta = screenCenterX - nodeX
                              in scrollTimeline st1 scrollDelta)))
           else drawTimeline (st\<lparr>selectedNodeIndex := - 1\<rparr>))
      | NaN \<Rightarrow> drawTimeline (st\<lparr>selectedNodeIndex := - 1\<rparr>))"

text \<open>
  The callback of the loop in \<open>findClosestNodeToCenter\<close>; the loop state is
  \<open>(closestIndex, minDistance)\<close>, and \<open>None\<close> as distance is \<open>Infinity\<close>.
\<close>

definition findClosest_each :: "state \<Rightarrow> number \<Rightarrow> event \<Rightarrow> nat \<Rightarrow> int \<times> number option \<Rightarrow> (int \<times> number option) option" where
  "findClosest_each st viewportCenterX node index acc =
     (case getDateX st (date node) of
        None \<Rightarrow> None
      | Some nodeX \<Rightarrow>
          (let distance = \<bar>nodeX - viewportCenterX\<bar>
           in Some (if (case snd acc of None \<Rightarrow> True | Some minDistance \<Rightarrow> distance < minDistance)
                    then (int index, Some distance)
                    else acc)))"

definition findClosestNodeToCenter :: "state \<Rightarrow> int option" where
  "findClosestNodeToCenter st =
     (case canvas st of
        None \<Rightarrow> None
      | Some cv \<Rightarrow>
          (let viewportCenterX = - timelineOffsetX st + of_nat (width cv) / 2
           in case forEach (findClosest_each st viewportCenterX) (timelineData st) 0 (- 1, None) of
                None \<Rightarrow> None
              | Some (closestIndex, minDistance) \<Rightarrow> Some closestIndex))"

section \<open>interaction.js\<close>

text \<open>
  \<open>navigateNodes\<close> reads \<open>window.selectedNodeIndex\<close> and \<open>window.timelineData\<close>; the
  latter is the array of the module. With \<open>undefined\<close> for the former, the strict
  comparison with \<open>-1\<close> is false, \<open>undefined + direction\<close> is \<open>NaN\<close>, and neither
  clamp applies to \<open>NaN\<close>.
\<close>

definition navigateNodes :: "state \<Rightarrow> int \<Rightarrow> state option" where
  "navigateNodes st direction =
     (let len = int (length (timelineData st));
          newIndex =
            (case window_selectedNodeIndex st of
               None \<Rightarrow> NaN
             | Some sel \<Rightarrow>
                 (if sel = - 1 then
                    (if direction = 1 then Num (if len > 0 then 0 else - 1)
                     else Num (if len > 0 then len - 1 else - 1))
                  else
                    (let n0 = sel + direction;
                         n1 = (if n0 < 0 then 0 else n0);
                         n2 = (if n1 \<ge> len then len - 1 else n1)
                     in Num n2)))
      in selectNode st newIndex)"

text \<open>
  \<open>handleKeyDown\<close>: the keys it handles, with \<open>window.innerWidth\<close> as a parameter.
  Any other key changes nothing.
\<close>

datatype key = ArrowUp | ArrowDown | PageUp | PageDown | ArrowLeft | ArrowRight | OtherKey

definition handleKeyDown :: "state \<Rightarrow> nat \<Rightarrow> key \<Rightarrow> state option" where
  "handleKeyDown st innerWidth k =
     (let scrollAmount = of_nat innerWidth * (1 / 2)
      in case k of
           ArrowUp \<Rightarrow> scrollTimeline st scrollAmount
         | ArrowDown \<Rightarrow> scrollTimeline st (- scrollAmount)
         | PageUp \<Rightarrow> zoomTimeline st 1
         | PageDown \<Rightarrow> zoomTimeline st (- 1)
         | ArrowLeft \<Rightarrow> navigateNodes st (- 1)
         | ArrowRight \<Rightarrow> navigateNodes st 1
         | OtherKey \<Rightarrow> Some st)"

section \<open>Double-precision arithmetic\<close>

text \<open>
  Where a property depends on how the sums and products of the program round, the
  numbers are IEEE 754 doubles: a double is a rational \<open>n * 2^e\<close> with \<open>\<bar>n\<bar> < 2^53\<close>, and
  every arithmetic operation returns the double nearest to the exact result, a tie going
  to the even significand (\<open>fl\<close>). For a positive \<open>x\<close>, \<open>exponent x\<close> is the integer \<open>e\<close> with
  \<open>2^e \<le> x < 2^(e+1)\<close>, and \<open>x\<close> is rounded to a multiple of \<open>2^(e-52)\<close>. The exponent
  is not bounded here: the results agree with the machine's as long as no result exceeds
  the largest finite double (about \<open>1.8 * 10^308\<close>); below the normal range the sums and
  differences of doubles are exact on the machine as they are here. Time values
  of \<open>Date\<close> objects (integers of at most \<open>8.64 * 10^15\<close> in magnitude), day counts, the
  canvas width and the constants of the program are doubles themselves.
\<close>

definition pow2 :: "int \<Rightarrow> rat" where
  "pow2 e = (if 0 \<le> e then 2 ^ nat e else 1 / 2 ^ nat (- e))"

function ilog2_ge1 :: "rat \<Rightarrow> int" where
  "ilog2_ge1 x = (if 2 \<le> x then ilog2_ge1 (x / 2) + 1 else 0)"
  by pat_completeness auto
termination
proof (relation "measure (\<lambda>x. nat \<lfloor>x\<rfloor>)")
  show "wf (measure (\<lambda>x::rat. nat \<lfloor>x\<rfloor>))" by simp
next
  fix x :: rat
  assume x: "2 \<le> x"
  then have "x / 2 \<le> x - 1" by simp
  then have "\<lfloor>x / 2\<rfloor> \<le> \<lfloor>x - 1\<rfloor>" by (rule floor_mono)
  moreover from x have "2 \<le> \<lfloor>x\<rfloor>" by (simp add: le_floor_iff)
  ultimately show "(x / 2, x) \<in> measure (\<lambda>x. nat \<lfloor>x\<rfloor>)" by simp
qed

function ilog2_lt1 :: "rat \<Rightarrow> int" where
  "ilog2_lt1 x = (if 0 < x \<and> x < 1 then ilog2_lt1 (2 * x) - 1 else 0)"
  by pat_completeness auto
termination
proof (relation "measure (\<lambda>x. nat \<lceil>1 / x\<rceil>)")
  show "wf (measure (\<lambda>x::rat. nat \<lceil>1 / x\<rceil>))" by simp
next
  fix x :: rat
  assume x: "0 < x \<and> x < 1"
  then have y: "1 < 1 / x" by simp
  then have c: "2 \<le> \<lceil>1 / x\<rceil>" by (simp add: le_ceiling_iff)
  have "1 / x \<le> of_int \<lceil>1 / x\<rceil>" by (rule le_of_int_ceiling)
  then have "1 / (2 * x) \<le> of_int \<lceil>1 / x\<rceil> / 2" by simp
  also have "\<dots> \<le> of_int (\<lceil>1 / x\<rceil> - 1)" using c by simp
  finally have "1 / (2 * x) \<le> of_int (\<lceil>1 / x\<rceil> - 1)" .
  then have "\<lceil>1 / (2 * x)\<rceil> \<le> \<lceil>1 / x\<rceil> - 1" by (rule ceiling_le)
  with c x show "(2 * x, x) \<in> measure (\<lambda>x. nat \<lceil>1 / x\<rceil>)" by simp
qed

declare ilog2_ge1.simps [simp del] ilog2_lt1.simps [simp del]

definition exponent :: "rat \<Rightarrow> int" where
  "exponent x = (if 1 \<le> x then ilog2_ge1 x else ilog2_lt1 x)"

definition round_half_even :: "rat \<Rightarrow> int" where
  "round_half_even m =
     (let f = \<lfloor>m\<rfloor>; d = m - of_int f
      in if d < 1 / 2 then f else if 1 / 2 < d then f + 1 else if even f then f else f + 1)"

definition fl :: "rat \<Rightarrow> rat" where
  "fl x =
     (if x = 0 then 0
      else (let q = pow2 (exponent \<bar>x\<bar> - 52)
            in sgn x * of_int (round_half_even (\<bar>x\<bar> / q)) * q))"

text \<open>The four operations of the program on doubles.\<close>

definition plus_d :: "number \<Rightarrow> number \<Rightarrow> number" where
  "plus_d a b = fl (a + b)"

definition minus_d :: "number \<Rightarrow> number \<Rightarrow> number" where
  "minus_d a b = fl (a - b)"

definition times_d :: "number \<Rightarrow> number \<Rightarrow> number" where
  "times_d a b = fl (a * b)"

definition divide_d :: "number \<Rightarrow> number \<Rightarrow> number" where
  "divide_d a b = fl (a / b)"

section \<open>timeline.js over doubles\<close>

text \<open>
  The functions of timeline.js that compute coordinates, with every operation rounded.
  The literals \<open>0.8\<close> and \<open>0.2\<close> are the doubles nearest to \<open>4/5\<close> and \<open>1/5\<close>; \<open>3\<close>,
  \<open>200\<close>, \<open>-200\<close> and \<open>1000 * 60 * 60 * 24\<close> are exact. The strings, the tiers and the
  selection are as before.
\<close>

definition getDateX_d :: "state \<Rightarrow> jsdate \<Rightarrow> number option" where
  "getDateX_d st d =
     (case timelineData st of
        [] \<Rightarrow> None
      | node0 # _ \<Rightarrow>
          (let minDate = date node0;
               diffTime = \<bar>minus_d (of_int (getTime d)) (of_int (getTime minDate))\<bar>;
               diffDays = \<lceil>divide_d diffTime (1000 * 60 * 60 * 24)\<rceil>;
               scaleFactor =
                 (if currentZoomLevel st = 1 then 3
                  else if currentZoomLevel st = 2 then fl (4 / 5)
                  else if currentZoomLevel st = 3 then fl (1 / 5)
                  else 3)
           in Some (times_d (of_int diffDays) scaleFactor)))"

definition drawNode_d :: "state \<Rightarrow> number \<Rightarrow> number \<Rightarrow> string \<Rightarrow> bool \<Rightarrow> drawn_node" where
  "drawNode_d st x y ttl isSelected =
     (let charLimit = getNodeCharLimit st;
          displayTitle = truncateText ttl charLimit;
          nodeWidth = plus_d (times_d (of_nat (length displayTitle)) TILE_SIZE) (times_d TILE_SIZE 4);
          boxColor = (if isSelected then ''yellow'' else ''white'');
          boxX = minus_d x (divide_d nodeWidth 2);
          boxY = minus_d y NODE_HEIGHT;
          border = ''+'' @ repeat CHR ''-'' (nat \<lfloor>minus_d (divide_d nodeWidth TILE_SIZE) 2\<rfloor>) @ ''*''
      in \<lparr>dn_font = getFontSize st,
          dn_boxColor = boxColor,
          dn_x = x,
          dn_y = y,
          dn_lineTo_y = plus_d boxY (divide_d NODE_HEIGHT 2),
          dn_boxX = boxX,
          dn_boxY = boxY,
          dn_top = border,
          dn_middle = ''<-|'' @ displayTitle @ ''|->'',
          dn_bottom = border\<rparr>)"

definition inView_d :: "canvas \<Rightarrow> number \<Rightarrow> bool" where
  "inView_d cv nodeX = (nodeX > - 200 \<and> nodeX < plus_d (of_nat (width cv)) 200)"

definition nodePosition_d :: "state \<Rightarrow> event \<Rightarrow> nat \<Rightarrow> number \<Rightarrow> node_position" where
  "nodePosition_d st node index nodeX =
     (let charLimit = getNodeCharLimit st;
          displayTitle = truncateText (title node) charLimit;
          nodeWidth = plus_d (times_d (of_nat (length displayTitle)) TILE_SIZE) (times_d TILE_SIZE 4)
      in \<lparr>np_id = event_id node,
          np_x = minus_d nodeX (divide_d nodeWidth 2),
          np_y = minus_d TIMELINE_Y NODE_HEIGHT,
          np_width = nodeWidth,
          np_height = times_d TILE_SIZE 3,
          np_index = index,
          np_originalTitle = title node\<rparr>)"

definition dateLabel_d :: "state \<Rightarrow> event \<Rightarrow> number \<Rightarrow> (string option \<times> string option \<times> number) option" where
  "dateLabel_d st node nodeX =
     (if currentZoomLevel st = 1 then
        (let dateString = toString (getFullYear (date node)) @ ''-''
                            @ padStart (toString (getMonth (date node) + 1)) 2 CHR ''0''
         in Some (Some dateString, Some dateString, nodeX))
      else if currentZoomLevel st = 2 then
        (let dateString = toString (getFullYear (date node))
         in Some (Some dateString, Some dateString, nodeX))
      else if currentZoomLevel st = 3 then
        (let dateString = CHR 0x27 # drop 2 (toString (getFullYear (date node)));
             dateKey = take 3 dateString @ ''0''
         in case getDateX_d st (new_Date_Jan1
                   (getFullYear (date node) - js_rem (getFullYear (date node)) 10)) of
              None \<Rightarrow> None
            | Some x \<Rightarrow> Some (Some dateString, Some dateKey, plus_d x (timelineOffsetX st)))
      else Some (None, None, nodeX))"

definition drawTimeline_each_d :: "state \<Rightarrow> canvas \<Rightarrow> event \<Rightarrow> nat \<Rightarrow> frame \<Rightarrow> frame option" where
  "drawTimeline_each_d st cv node index fr =
     (case getDateX_d st (date node) of
        None \<Rightarrow> None
      | Some vx \<Rightarrow>
          (let nodeX = plus_d vx (timelineOffsetX st);
               fr1 =
                 (if inView_d cv nodeX then
                    (let isSelected = (int index = selectedNodeIndex st)
                     in fr\<lparr>nodes := nodes fr @ [drawNode_d st nodeX TIMELINE_Y (title node) isSelected],
                           processedNodePositions := processedNodePositions fr @
                             [nodePosition_d st node index nodeX]\<rparr>)
                  else fr)
           in case dateLabel_d st node nodeX of
                None \<Rightarrow> None
              | Some (dateString, dateKey, dateX) \<Rightarrow>
                  Some (if dateKey \<notin> set (drawnDates fr1) then
                          fr1\<lparr>labels := labels fr1 @ [\<lparr>lb_text = dateString, lb_x = dateX\<rparr>],
                               drawnDates := drawnDates fr1 @ [dateKey]\<rparr>
                        else fr1)))"

definition drawTimeline_d :: "state \<Rightarrow> state option" where
  "drawTimeline_d st =
     (case canvas st of
        None \<Rightarrow> Some st
      | Some cv \<Rightarrow>
          (case forEach (drawTimeline_each_d st cv) (timelineData st) 0 empty_frame of
             None \<Rightarrow> None
           | Some fr \<Rightarrow>
               Some (st\<lparr>rendered := Some fr,
                        window_timelineNodePositions := Some (processedNodePositions fr)\<rparr>)))"

definition scrollTimeline_d :: "state \<Rightarrow> number \<Rightarrow> state option" where
  "scrollTimeline_d st deltaX =
     drawTimeline_d (st\<lparr>timelineOffsetX := plus_d (timelineOffsetX st) deltaX\<rparr>)"

definition selectNode_d :: "state \<Rightarrow> jsindex \<Rightarrow> state option" where
  "selectNode_d st index =
     (case index of
        Num i \<Rightarrow>
          (if i \<ge> 0 \<and> i < int (length (timelineData st)) then
             (let st1 = st\<lparr>selectedNodeIndex := i\<rparr>
              in case getDateX_d st1 (date (timelineData st1 ! nat (selectedNodeIndex st1))) of
                   None \<Rightarrow> None
                 | Some vx \<Rightarrow>
                     (let nodeX = plus_d vx (timelineOffsetX st1)
                      in case canvas st1 of
                           None \<Rightarrow> None
                         | Some cv \<Rightarrow>
                             (let screenCenterX = divide_d (of_nat (width cv)) 2;
                                  scrollDelta = minus_d screenCenterX nodeX
                              in scrollTimeline_d st1 scrollDelta)))
           else drawTimeline_d (st\<lparr>selectedNodeIndex := - 1\<rparr>))
      | NaN \<Rightarrow> drawTimeline_d (st\<lparr>selectedNodeIndex := - 1\<rparr>))"

section \<open>Auxiliary notions for the proofs\<close>

text \<open>
  The number \<open>getDateX\<close> returns and the screen X of line 186, as total functions;
  on a non-empty collection \<open>getDateX\<close> returns, and they are its value.
\<close>

definition virtualX :: "state \<Rightarrow> jsdate \<Rightarrow> number" where
  "virtualX st d = (case getDateX st d of None \<Rightarrow> 0 | Some x \<Rightarrow> x)"

definition screenX :: "state \<Rightarrow> jsdate \<Rightarrow> number" where
  "screenX st d = virtualX st d + timelineOffsetX st"

text \<open>The date string, bucket key and anchor X of a node's label.\<close>

definition labelOf :: "state \<Rightarrow> event \<Rightarrow> string option \<times> string option \<times> number" where
  "labelOf st node =
     (case dateLabel st node (screenX st (date node)) of
        None \<Rightarrow> (None, None, 0)
      | Some l \<Rightarrow> l)"

definition dateStringOf :: "state \<Rightarrow> event \<Rightarrow> string option" where
  "dateStringOf st node = fst (labelOf st node)"

definition dateKeyOf :: "state \<Rightarrow> event \<Rightarrow> string option" where
  "dateKeyOf st node = fst (snd (labelOf st node))"

definition dateXOf :: "state \<Rightarrow> event \<Rightarrow> number" where
  "dateXOf st node = snd (snd (labelOf st node))"

text \<open>The frame one run of the callback returns, and the frame after a run of the loop.\<close>

definition step_frame :: "state \<Rightarrow> canvas \<Rightarrow> event \<Rightarrow> nat \<Rightarrow> frame \<Rightarrow> frame" where
  "step_frame st cv node index fr =
     (case drawTimeline_each st cv node index fr of None \<Rightarrow> fr | Some fr' \<Rightarrow> fr')"

fun frames :: "state \<Rightarrow> canvas \<Rightarrow> event list \<Rightarrow> nat \<Rightarrow> frame \<Rightarrow> frame" where
  "frames st cv [] index fr = fr"
| "frames st cv (node # ns) index fr = frames st cv ns (Suc index) (step_frame st cv node index fr)"

text \<open>
  The nodes of a list whose bucket key occurs neither among the keys seen so far nor
  at an earlier node of the list.
\<close>

fun firsts :: "('a \<Rightarrow> 'k) \<Rightarrow> 'k list \<Rightarrow> 'a list \<Rightarrow> 'a list" where
  "firsts key seen [] = []"
| "firsts key seen (x # xs) =
     (if key x \<in> set seen then firsts key seen xs
      else x # firsts key (seen @ [key x]) xs)"

text \<open>
  The same notions over doubles: the virtual X and the screen X of a date, the screen X
  of the event at an index computed anew in a state (lines 186 and 282), the frame one
  run of the callback returns and the frame after a run of the loop.
\<close>

definition virtualX_d :: "state \<Rightarrow> jsdate \<Rightarrow> number" where
  "virtualX_d st d = (case getDateX_d st d of None \<Rightarrow> 0 | Some x \<Rightarrow> x)"

definition screenX_d :: "state \<Rightarrow> jsdate \<Rightarrow> number" where
  "screenX_d st d = plus_d (virtualX_d st d) (timelineOffsetX st)"

definition step_frame_d :: "state \<Rightarrow> canvas \<Rightarrow> event \<Rightarrow> nat \<Rightarrow> frame \<Rightarrow> frame" where
  "step_frame_d st cv node index fr =
     (case drawTimeline_each_d st cv node index fr of None \<Rightarrow> fr | Some fr' \<Rightarrow> fr')"

fun frames_d :: "state \<Rightarrow> canvas \<Rightarrow> event list \<Rightarrow> nat \<Rightarrow> frame \<Rightarrow> frame" where
  "frames_d st cv [] index fr = fr"
| "frames_d st cv (node # ns) index fr =
     frames_d st cv ns (Suc index) (step_frame_d st cv node index fr)"

definition nodeX_d :: "nat \<Rightarrow> state \<Rightarrow> number option" where
  "nodeX_d k st =
     (case getDateX_d st (date (timelineData st ! k)) of
        None \<Rightarrow> None
      | Some vx \<Rightarrow> Some (plus_d vx (timelineOffsetX st)))"

section \<open>Facts about the embedding\<close>

text \<open>Evaluating the whole-day count on numerals.\<close>

lemma ceiling_rat_numeral:
  "\<lceil>numeral a / numeral b :: rat\<rceil> = - (- numeral a div numeral b)"
  using ceiling_divide_eq_div [of "numeral a" "numeral b", where ?'a = rat] by simp

lemma ceiling_rat_one_numeral:
  "\<lceil>1 / numeral b :: rat\<rceil> = - (- 1 div numeral b)"
  using ceiling_divide_eq_div [of 1 "numeral b", where ?'a = rat] by simp

lemma floor_rat_numeral:
  "\<lfloor>numeral a / numeral b :: rat\<rfloor> = numeral a div numeral b"
  using floor_divide_of_int_eq [of "numeral a" "numeral b", where ?'a = rat] by simp

lemmas date_defs = ceiling_rat_numeral ceiling_rat_one_numeral floor_rat_numeral Date_ISO_def days_from_civil_def msPerDay_def Day_def civil_from_days_def
  getFullYear_def getMonth_def new_Date_Jan1_def js_rem_def toString_def padStart_def repeat_def
  digits.simps

lemmas draw_defs = drawTimeline_def drawTimeline_each_def dateLabel_def getDateX_def inView_def
  nodePosition_def drawNode_def getNodeCharLimit_def getFontSize_def truncateText_def
  empty_frame_def TILE_SIZE_def NODE_HEIGHT_def TIMELINE_Y_def initial_state_def
  seed_timelineData_def scrollTimeline_def selectNode_def navigateNodes_def zoomTimeline_def
  findClosestNodeToCenter_def findClosest_each_def

subsection \<open>The loop of \<open>drawTimeline\<close> returns on every collection\<close>

lemma getDateX_Some: "timelineData st \<noteq> [] \<Longrightarrow> getDateX st d = Some (virtualX st d)"
  by (cases "timelineData st") (simp_all add: getDateX_def virtualX_def Let_def)

lemma dateLabel_Some:
  "timelineData st \<noteq> [] \<Longrightarrow>
     dateLabel st node (screenX st (date node)) =
       Some (dateStringOf st node, dateKeyOf st node, dateXOf st node)"
  by (simp add: dateStringOf_def dateKeyOf_def dateXOf_def labelOf_def dateLabel_def Let_def
      getDateX_Some)

lemma drawTimeline_each_Some:
  "timelineData st \<noteq> [] \<Longrightarrow>
     drawTimeline_each st cv node i fr = Some (step_frame st cv node i fr)"
  by (simp add: step_frame_def drawTimeline_each_def getDateX_Some Let_def
      dateLabel_Some [unfolded screenX_def])

lemma step_frame_eq:
  assumes "timelineData st \<noteq> []"
  shows "step_frame st cv node i fr =
     (let fr1 = (if inView cv (screenX st (date node)) then
                   fr\<lparr>nodes := nodes fr @ [drawNode st (screenX st (date node)) TIMELINE_Y (title node)
                                               (int i = selectedNodeIndex st)],
                       processedNodePositions := processedNodePositions fr @
                                               [nodePosition st node i (screenX st (date node))]\<rparr>
                 else fr)
      in if dateKeyOf st node \<in> set (drawnDates fr1) then fr1
         else fr1\<lparr>labels := labels fr1 @ [\<lparr>lb_text = dateStringOf st node, lb_x = dateXOf st node\<rparr>],
                  drawnDates := drawnDates fr1 @ [dateKeyOf st node]\<rparr>)"
  using assms
  by (simp add: step_frame_def drawTimeline_each_def getDateX_Some Let_def
      dateLabel_Some [unfolded screenX_def] screenX_def)

lemma forEach_draw:
  "timelineData st \<noteq> [] \<Longrightarrow>
     forEach (drawTimeline_each st cv) xs i fr = Some (frames st cv xs i fr)"
  by (induction xs arbitrary: i fr) (simp_all add: drawTimeline_each_Some)


lemma step_positions:
  "timelineData st \<noteq> [] \<Longrightarrow>
     processedNodePositions (step_frame st cv node i fr) =
       processedNodePositions fr @
         (if inView cv (screenX st (date node))
          then [nodePosition st node i (screenX st (date node))] else [])"
  by (simp add: step_frame_eq Let_def)

lemma step_nodes:
  "timelineData st \<noteq> [] \<Longrightarrow>
     nodes (step_frame st cv node i fr) =
       nodes fr @
         (if inView cv (screenX st (date node))
          then [drawNode st (screenX st (date node)) TIMELINE_Y (title node)
                  (int i = selectedNodeIndex st)] else [])"
  by (simp add: step_frame_eq Let_def)

lemma step_drawnDates:
  "timelineData st \<noteq> [] \<Longrightarrow>
     drawnDates (step_frame st cv node i fr) =
       drawnDates fr @ (if dateKeyOf st node \<in> set (drawnDates fr) then [] else [dateKeyOf st node])"
  by (simp add: step_frame_eq Let_def)

lemma step_labels:
  "timelineData st \<noteq> [] \<Longrightarrow>
     labels (step_frame st cv node i fr) =
       labels fr @ (if dateKeyOf st node \<in> set (drawnDates fr) then []
                    else [\<lparr>lb_text = dateStringOf st node, lb_x = dateXOf st node\<rparr>])"
  by (simp add: step_frame_eq Let_def)

lemma frames_positions:
  "timelineData st \<noteq> [] \<Longrightarrow>
     processedNodePositions (frames st cv xs i fr) =
       processedNodePositions fr @
         map (\<lambda>(j, n). nodePosition st n j (screenX st (date n)))
           (filter (\<lambda>(j, n). inView cv (screenX st (date n))) (enumerate i xs))"
  by (induction xs arbitrary: i fr) (simp_all add: step_positions)

lemma frames_nodes:
  "timelineData st \<noteq> [] \<Longrightarrow>
     nodes (frames st cv xs i fr) =
       nodes fr @
         map (\<lambda>(j, n). drawNode st (screenX st (date n)) TIMELINE_Y (title n)
                         (int j = selectedNodeIndex st))
           (filter (\<lambda>(j, n). inView cv (screenX st (date n))) (enumerate i xs))"
  by (induction xs arbitrary: i fr) (simp_all add: step_nodes)

lemma frames_drawnDates:
  "timelineData st \<noteq> [] \<Longrightarrow>
     drawnDates (frames st cv xs i fr) =
       drawnDates fr @ map (dateKeyOf st) (firsts (dateKeyOf st) (drawnDates fr) xs)"
  by (induction xs arbitrary: i fr) (simp_all add: step_drawnDates)

lemma frames_labels:
  "timelineData st \<noteq> [] \<Longrightarrow>
     labels (frames st cv xs i fr) =
       labels fr @ map (\<lambda>n. \<lparr>lb_text = dateStringOf st n, lb_x = dateXOf st n\<rparr>)
                     (firsts (dateKeyOf st) (drawnDates fr) xs)"
  by (induction xs arbitrary: i fr) (simp_all add: step_labels step_drawnDates)

lemma firsts_keys:
  "set (map key (firsts key seen xs)) = key ` set xs - set seen"
  by (induction xs arbitrary: seen) auto

lemma firsts_distinct:
  "distinct (map key (firsts key seen xs))"
proof (induction xs arbitrary: seen)
  case Nil
  show ?case by simp
next
  case (Cons x xs)
  have "key x \<notin> set (map key (firsts key (seen @ [key x]) xs))"
    unfolding firsts_keys by simp
  with Cons show ?case by simp
qed

lemma firsts_subset: "set (firsts key seen xs) \<subseteq> set xs"
  by (induction xs arbitrary: seen) auto

lemma firsts_first:
  "i < length xs \<Longrightarrow> key (xs ! i) \<notin> set seen \<Longrightarrow> (\<forall>j<i. key (xs ! j) \<noteq> key (xs ! i))
     \<Longrightarrow> xs ! i \<in> set (firsts key seen xs)"
proof (induction xs arbitrary: seen i)
  case Nil
  then show ?case by simp
next
  case (Cons x xs)
  show ?case
  proof (cases i)
    case 0
    with Cons.prems show ?thesis by simp
  next
    case (Suc k)
    from Cons.prems Suc have k: "k < length xs" by simp
    from Cons.prems Suc have ne: "key x \<noteq> key (xs ! k)" by fastforce
    from Cons.prems Suc have seen: "key (xs ! k) \<notin> set seen" by simp
    from Cons.prems Suc have prev: "\<forall>j<k. key (xs ! j) \<noteq> key (xs ! k)" by fastforce
    from ne seen have seen': "key (xs ! k) \<notin> set (seen @ [key x])" by auto
    from Cons.IH [OF k seen prev] Cons.IH [OF k seen' prev] Suc
    show ?thesis by simp
  qed
qed


lemma drawTimeline_canvas:
  assumes "canvas st = Some cv"
  shows "drawTimeline st =
     Some (st\<lparr>rendered := Some (frames st cv (timelineData st) 0 empty_frame),
              window_timelineNodePositions :=
                Some (processedNodePositions (frames st cv (timelineData st) 0 empty_frame))\<rparr>)"
proof (cases "timelineData st = []")
  case True
  with assms show ?thesis by (simp add: drawTimeline_def)
next
  case False
  with assms show ?thesis by (simp add: drawTimeline_def forEach_draw)
qed

lemma drawTimeline_returns:
  "\<exists>r p. drawTimeline st = Some (st\<lparr>rendered := r, window_timelineNodePositions := p\<rparr>)"
proof (cases "canvas st")
  case None
  have "st = st\<lparr>rendered := rendered st, window_timelineNodePositions := window_timelineNodePositions st\<rparr>"
    by simp
  moreover from None have "drawTimeline st = Some st" by (simp add: drawTimeline_def)
  ultimately show ?thesis by metis
next
  case (Some cv)
  from drawTimeline_canvas [OF Some] show ?thesis by blast
qed

lemma getDateX_frame [simp]:
  "getDateX (st\<lparr>rendered := r, window_timelineNodePositions := p\<rparr>) d = getDateX st d"
  by (simp add: getDateX_def)

lemma getDateX_offset [simp]:
  "getDateX (st\<lparr>timelineOffsetX := x\<rparr>) d = getDateX st d"
  by (simp add: getDateX_def)

lemma getDateX_selected [simp]:
  "getDateX (st\<lparr>selectedNodeIndex := i\<rparr>) d = getDateX st d"
  by (simp add: getDateX_def)

subsection \<open>Day distances\<close>




subsection \<open>The frame of a render pass\<close>

lemma enumerate_nth: "enumerate 0 xs = map (\<lambda>i. (i, xs ! i)) [0..<length xs]"
  by (rule nth_equalityI) (simp_all add: nth_enumerate_eq)

lemma rendered_frame:
  assumes "canvas st = Some cv"
  shows "\<exists>st'. drawTimeline st = Some st'
      \<and> rendered st' = Some (frames st cv (timelineData st) 0 empty_frame)
      \<and> window_timelineNodePositions st' =
            Some (processedNodePositions (frames st cv (timelineData st) 0 empty_frame))"
  using drawTimeline_canvas [OF assms] by simp

lemma frame_positions:
  "processedNodePositions (frames st cv (timelineData st) 0 empty_frame) =
     map (\<lambda>i. nodePosition st (timelineData st ! i) i (screenX st (date (timelineData st ! i))))
       (filter (\<lambda>i. inView cv (screenX st (date (timelineData st ! i))))
          [0..<length (timelineData st)])"
proof (cases "timelineData st = []")
  case True
  then show ?thesis by (simp add: empty_frame_def)
next
  case False
  then show ?thesis
    by (simp add: frames_positions enumerate_nth filter_map comp_def empty_frame_def)
qed

lemma frame_nodes:
  "nodes (frames st cv (timelineData st) 0 empty_frame) =
     map (\<lambda>i. drawNode st (screenX st (date (timelineData st ! i))) TIMELINE_Y
                 (title (timelineData st ! i)) (int i = selectedNodeIndex st))
       (filter (\<lambda>i. inView cv (screenX st (date (timelineData st ! i))))
          [0..<length (timelineData st)])"
proof (cases "timelineData st = []")
  case True
  then show ?thesis by (simp add: empty_frame_def)
next
  case False
  then show ?thesis
    by (simp add: frames_nodes enumerate_nth filter_map comp_def empty_frame_def)
qed

lemma frame_labels:
  "labels (frames st cv (timelineData st) 0 empty_frame) =
     map (\<lambda>n. \<lparr>lb_text = dateStringOf st n, lb_x = dateXOf st n\<rparr>)
       (firsts (dateKeyOf st) [] (timelineData st))"
proof (cases "timelineData st = []")
  case True
  then show ?thesis by (simp add: empty_frame_def)
next
  case False
  then show ?thesis by (simp add: frames_labels empty_frame_def)
qed

lemma frame_drawnDates:
  "drawnDates (frames st cv (timelineData st) 0 empty_frame) =
     map (dateKeyOf st) (firsts (dateKeyOf st) [] (timelineData st))"
proof (cases "timelineData st = []")
  case True
  then show ?thesis by (simp add: empty_frame_def)
next
  case False
  then show ?thesis by (simp add: frames_drawnDates empty_frame_def)
qed

lemma np_index_nodePosition [simp]: "np_index (nodePosition st node i x) = i"
  by (simp add: nodePosition_def Let_def)

lemma frame_position_indices:
  "map np_index (processedNodePositions (frames st cv (timelineData st) 0 empty_frame)) =
     filter (\<lambda>i. inView cv (screenX st (date (timelineData st ! i))))
       [0..<length (timelineData st)]"
  by (simp add: frame_positions comp_def)

lemma labels_one_per_key:
  assumes "canvas st = Some cv"
  shows "\<exists>st' fr. drawTimeline st = Some st' \<and> rendered st' = Some fr
      \<and> distinct (drawnDates fr)
      \<and> set (drawnDates fr) = dateKeyOf st ` set (timelineData st)
      \<and> length (labels fr) = length (drawnDates fr)"
proof -
  let ?fr = "frames st cv (timelineData st) 0 empty_frame"
  obtain st' where "drawTimeline st = Some st'" "rendered st' = Some ?fr"
    using rendered_frame [OF assms] by blast
  moreover have "distinct (drawnDates ?fr)"
    unfolding frame_drawnDates by (rule firsts_distinct)
  moreover have "set (drawnDates ?fr) = dateKeyOf st ` set (timelineData st)"
    unfolding frame_drawnDates using firsts_keys [of "dateKeyOf st" "[]" "timelineData st"] by simp
  moreover have "length (labels ?fr) = length (drawnDates ?fr)"
    unfolding frame_drawnDates frame_labels by simp
  ultimately show ?thesis by blast
qed

lemma virtualX_updates [simp]:
  "virtualX (st\<lparr>rendered := r, window_timelineNodePositions := p\<rparr>) d = virtualX st d"
  "virtualX (st\<lparr>timelineOffsetX := x\<rparr>) d = virtualX st d"
  "virtualX (st\<lparr>selectedNodeIndex := i\<rparr>) d = virtualX st d"
  by (simp_all add: virtualX_def)

lemma drawNode_frame [simp]:
  "drawNode (st\<lparr>rendered := r, window_timelineNodePositions := p\<rparr>) = drawNode st"
  by (intro ext) (simp add: drawNode_def getNodeCharLimit_def getFontSize_def)

subsection \<open>The loop of \<open>findClosestNodeToCenter\<close>\<close>



subsection \<open>Navigation without \<open>window.selectedNodeIndex\<close>\<close>

lemma navigateNodes_undefined:
  assumes "window_selectedNodeIndex st = None"
  shows "\<exists>r p. navigateNodes st direction =
     Some (st\<lparr>selectedNodeIndex := - 1, rendered := r, window_timelineNodePositions := p\<rparr>)"
  using drawTimeline_returns [of "st\<lparr>selectedNodeIndex := - 1\<rparr>"] assms
  by (simp add: navigateNodes_def selectNode_def)

text \<open>
  Had the read of \<open>window.selectedNodeIndex\<close> given the value of the module variable,
  the branches of \<open>navigateNodes\<close> would hand \<open>selectNode\<close> the first or last index
  from no selection, and the neighbouring index, kept within the bounds, otherwise.
\<close>

lemma navigateNodes_if_exposed:
  assumes "window_selectedNodeIndex st = Some sel" "timelineData st \<noteq> []"
  shows "navigateNodes st direction =
     selectNode st (Num
       (if sel = - 1 then (if direction = 1 then 0 else int (length (timelineData st)) - 1)
        else if sel + direction < 0 then 0
        else if sel + direction \<ge> int (length (timelineData st))
          then int (length (timelineData st)) - 1
        else sel + direction))"
proof -
  from assms(2) have "0 < int (length (timelineData st))" by simp
  with assms(1) show ?thesis by (simp add: navigateNodes_def Let_def)
qed

subsection \<open>Keys and labels at the Month and Year tiers\<close>

lemma month_year_key_is_label:
  assumes "currentZoomLevel st = 1 \<or> currentZoomLevel st = 2"
  shows "dateKeyOf st node = dateStringOf st node"
  using assms by (auto simp add: dateKeyOf_def dateStringOf_def labelOf_def dateLabel_def Let_def)

subsection \<open>Evaluating over doubles\<close>

lemmas fl_defs = fl_def pow2_def exponent_def round_half_even_def ilog2_ge1.simps ilog2_lt1.simps
  floor_rat_numeral ceiling_rat_numeral ceiling_rat_one_numeral

lemmas d_defs = plus_d_def minus_d_def times_d_def divide_d_def getDateX_d_def drawNode_d_def
  inView_d_def nodePosition_d_def dateLabel_d_def drawTimeline_each_d_def drawTimeline_d_def
  scrollTimeline_d_def selectNode_d_def

lemmas eval_d = d_defs nodeX_d_def fl_defs date_defs draw_defs

subsection \<open>The rounding error of one operation\<close>

lemma pow2_power_int: "pow2 e = power_int 2 e"
  by (simp add: pow2_def power_int_def power_one_over [symmetric] inverse_eq_divide)

lemma pow2_pos [simp]: "0 < pow2 e"
  by (simp add: pow2_power_int)

lemma pow2_Suc: "pow2 (e + 1) = 2 * pow2 e"
  by (simp add: pow2_power_int power_int_add)

lemma pow2_pred: "pow2 (e - 1) = pow2 e / 2"
  by (simp add: pow2_power_int power_int_diff)

lemma pow2_shift: "pow2 (e - 52) = pow2 e / 2 ^ 52"
  by (simp add: pow2_power_int power_int_diff)

lemma ilog2_ge1_bounds:
  "1 \<le> x \<Longrightarrow> pow2 (ilog2_ge1 x) \<le> x \<and> x < pow2 (ilog2_ge1 x + 1)"
proof (induction x rule: ilog2_ge1.induct)
  case (1 x)
  show ?case
  proof (cases "2 \<le> x")
    case True
    then have "1 \<le> x / 2" by simp
    with "1.IH" [OF True] have ih: "pow2 (ilog2_ge1 (x / 2)) \<le> x / 2"
        "x / 2 < pow2 (ilog2_ge1 (x / 2) + 1)" by simp_all
    from True have step: "ilog2_ge1 x = ilog2_ge1 (x / 2) + 1"
      by (subst ilog2_ge1.simps) simp
    from ih(1) have "pow2 (ilog2_ge1 (x / 2) + 1) \<le> x" by (simp add: pow2_Suc)
    moreover from ih(2) have "x < pow2 ((ilog2_ge1 (x / 2) + 1) + 1)"
      by (simp only: pow2_Suc [of "ilog2_ge1 (x / 2) + 1"])
    ultimately show ?thesis by (simp only: step)
  next
    case False
    then have "ilog2_ge1 x = 0" by (subst ilog2_ge1.simps) simp
    with False "1.prems" show ?thesis by (simp add: pow2_def)
  qed
qed

lemma ilog2_lt1_bounds:
  "0 < x \<Longrightarrow> x < 1 \<Longrightarrow> pow2 (ilog2_lt1 x) \<le> x \<and> x < pow2 (ilog2_lt1 x + 1)"
proof (induction x rule: ilog2_lt1.induct)
  case (1 x)
  from "1.prems" have step: "ilog2_lt1 x = ilog2_lt1 (2 * x) - 1"
    by (subst ilog2_lt1.simps) simp
  show ?case
  proof (cases "2 * x < 1")
    case True
    with "1.IH" "1.prems" have ih: "pow2 (ilog2_lt1 (2 * x)) \<le> 2 * x"
        "2 * x < pow2 (ilog2_lt1 (2 * x) + 1)" by simp_all
    from ih(1) have "pow2 (ilog2_lt1 (2 * x) - 1) \<le> x" by (simp add: pow2_pred)
    moreover from ih(2) have "x < pow2 (ilog2_lt1 (2 * x))" by (simp add: pow2_Suc)
    ultimately show ?thesis by (simp only: step) simp
  next
    case False
    then have "ilog2_lt1 (2 * x) = 0" by (subst ilog2_lt1.simps) simp
    with step have "ilog2_lt1 x = - 1" by simp
    with False "1.prems" show ?thesis by (simp add: pow2_def)
  qed
qed

lemma exponent_bounds:
  "0 < x \<Longrightarrow> pow2 (exponent x) \<le> x \<and> x < pow2 (exponent x + 1)"
  using ilog2_ge1_bounds [of x] ilog2_lt1_bounds [of x] by (simp add: exponent_def)

lemma round_half_even_error: "\<bar>of_int (round_half_even m) - m\<bar> \<le> 1 / 2"
proof -
  have "of_int \<lfloor>m\<rfloor> \<le> m" "m < of_int \<lfloor>m\<rfloor> + 1" by linarith+
  then show ?thesis by (auto simp add: round_half_even_def Let_def)
qed

lemma fl_error: "\<bar>fl x - x\<bar> \<le> \<bar>x\<bar> / 2 ^ 53"
proof (cases "x = 0")
  case True
  then show ?thesis by (simp add: fl_def)
next
  case False
  define q where "q = pow2 (exponent \<bar>x\<bar> - 52)"
  define n where "n = round_half_even (\<bar>x\<bar> / q)"
  have q: "0 < q" by (simp add: q_def)
  from False have "0 < \<bar>x\<bar>" by simp
  from exponent_bounds [OF this] have "pow2 (exponent \<bar>x\<bar>) \<le> \<bar>x\<bar>" by simp
  then have qx: "q \<le> \<bar>x\<bar> / 2 ^ 52" by (simp add: q_def pow2_shift divide_right_mono)
  have flx: "fl x = sgn x * of_int n * q"
    using False by (simp add: fl_def Let_def q_def n_def)
  have "sgn x * \<bar>x\<bar> = x" by (rule sgn_mult_abs)
  then have "x = sgn x * (\<bar>x\<bar> / q) * q" using q by simp
  then have "fl x - x = sgn x * (of_int n - \<bar>x\<bar> / q) * q"
    using flx by (simp add: algebra_simps)
  then have "\<bar>fl x - x\<bar> = \<bar>of_int n - \<bar>x\<bar> / q\<bar> * q"
    using q False by (simp add: abs_mult abs_sgn_eq)
  also have "\<dots> \<le> 1 / 2 * q"
    using round_half_even_error [of "\<bar>x\<bar> / q"] q unfolding n_def
    by (intro mult_right_mono) simp_all
  also have "\<dots> \<le> 1 / 2 * (\<bar>x\<bar> / 2 ^ 52)" using qx by simp
  also have "\<dots> = \<bar>x\<bar> / 2 ^ 53" by simp
  finally show ?thesis .
qed

subsection \<open>The render pass over doubles\<close>

lemma getDateX_d_Some: "timelineData st \<noteq> [] \<Longrightarrow> getDateX_d st d = Some (virtualX_d st d)"
  by (cases "timelineData st") (simp_all add: getDateX_d_def virtualX_d_def Let_def)

lemma dateLabel_d_Some:
  "timelineData st \<noteq> [] \<Longrightarrow> \<exists>l. dateLabel_d st node x = Some l"
  by (simp add: dateLabel_d_def Let_def getDateX_d_Some)

lemma drawTimeline_each_d_Some:
  "timelineData st \<noteq> [] \<Longrightarrow>
     drawTimeline_each_d st cv node i fr = Some (step_frame_d st cv node i fr)"
  using dateLabel_d_Some [of st node "plus_d (virtualX_d st (date node)) (timelineOffsetX st)"]
  by (auto simp add: step_frame_d_def drawTimeline_each_d_def getDateX_d_Some Let_def)

lemma step_d_positions:
  "timelineData st \<noteq> [] \<Longrightarrow>
     processedNodePositions (step_frame_d st cv node i fr) =
       processedNodePositions fr @
         (if inView_d cv (screenX_d st (date node))
          then [nodePosition_d st node i (screenX_d st (date node))] else [])"
  using dateLabel_d_Some [of st node "plus_d (virtualX_d st (date node)) (timelineOffsetX st)"]
  by (auto simp add: step_frame_d_def drawTimeline_each_d_def getDateX_d_Some Let_def screenX_d_def)

lemma step_d_nodes:
  "timelineData st \<noteq> [] \<Longrightarrow>
     nodes (step_frame_d st cv node i fr) =
       nodes fr @
         (if inView_d cv (screenX_d st (date node))
          then [drawNode_d st (screenX_d st (date node)) TIMELINE_Y (title node)
                  (int i = selectedNodeIndex st)] else [])"
  using dateLabel_d_Some [of st node "plus_d (virtualX_d st (date node)) (timelineOffsetX st)"]
  by (auto simp add: step_frame_d_def drawTimeline_each_d_def getDateX_d_Some Let_def screenX_d_def)

lemma forEach_draw_d:
  "timelineData st \<noteq> [] \<Longrightarrow>
     forEach (drawTimeline_each_d st cv) xs i fr = Some (frames_d st cv xs i fr)"
  by (induction xs arbitrary: i fr) (simp_all add: drawTimeline_each_d_Some)

lemma frames_d_positions:
  "timelineData st \<noteq> [] \<Longrightarrow>
     processedNodePositions (frames_d st cv xs i fr) =
       processedNodePositions fr @
         map (\<lambda>(j, n). nodePosition_d st n j (screenX_d st (date n)))
           (filter (\<lambda>(j, n). inView_d cv (screenX_d st (date n))) (enumerate i xs))"
  by (induction xs arbitrary: i fr) (simp_all add: step_d_positions)

lemma frames_d_nodes:
  "timelineData st \<noteq> [] \<Longrightarrow>
     nodes (frames_d st cv xs i fr) =
       nodes fr @
         map (\<lambda>(j, n). drawNode_d st (screenX_d st (date n)) TIMELINE_Y (title n)
                         (int j = selectedNodeIndex st))
           (filter (\<lambda>(j, n). inView_d cv (screenX_d st (date n))) (enumerate i xs))"
  by (induction xs arbitrary: i fr) (simp_all add: step_d_nodes)

lemma drawTimeline_d_canvas:
  assumes "canvas st = Some cv"
  shows "drawTimeline_d st =
     Some (st\<lparr>rendered := Some (frames_d st cv (timelineData st) 0 empty_frame),
              window_timelineNodePositions :=
                Some (processedNodePositions (frames_d st cv (timelineData st) 0 empty_frame))\<rparr>)"
proof (cases "timelineData st = []")
  case True
  with assms show ?thesis by (simp add: drawTimeline_d_def)
next
  case False
  with assms show ?thesis by (simp add: drawTimeline_d_def forEach_draw_d)
qed

lemma drawTimeline_d_returns:
  "\<exists>r p. drawTimeline_d st = Some (st\<lparr>rendered := r, window_timelineNodePositions := p\<rparr>)"
proof (cases "canvas st")
  case None
  have "st = st\<lparr>rendered := rendered st, window_timelineNodePositions := window_timelineNodePositions st\<rparr>"
    by simp
  moreover from None have "drawTimeline_d st = Some st" by (simp add: drawTimeline_d_def)
  ultimately show ?thesis by metis
next
  case (Some cv)
  from drawTimeline_d_canvas [OF Some] show ?thesis by blast
qed

lemma getDateX_d_updates [simp]:
  "getDateX_d (st\<lparr>rendered := r, window_timelineNodePositions := p\<rparr>) d = getDateX_d st d"
  "getDateX_d (st\<lparr>timelineOffsetX := x\<rparr>) d = getDateX_d st d"
  "getDateX_d (st\<lparr>selectedNodeIndex := i\<rparr>) d = getDateX_d st d"
  by (simp_all add: getDateX_d_def)

lemma virtualX_d_updates [simp]:
  "virtualX_d (st\<lparr>rendered := r, window_timelineNodePositions := p\<rparr>) d = virtualX_d st d"
  "virtualX_d (st\<lparr>timelineOffsetX := x\<rparr>) d = virtualX_d st d"
  "virtualX_d (st\<lparr>selectedNodeIndex := i\<rparr>) d = virtualX_d st d"
  by (simp_all add: virtualX_d_def)

lemma drawNode_d_offset [simp]:
  "drawNode_d (st\<lparr>timelineOffsetX := x\<rparr>) = drawNode_d st"
  by (intro ext) (simp add: drawNode_d_def getNodeCharLimit_def getFontSize_def)

lemma nodePosition_d_offset [simp]:
  "nodePosition_d (st\<lparr>timelineOffsetX := x\<rparr>) = nodePosition_d st"
  by (intro ext) (simp add: nodePosition_d_def getNodeCharLimit_def)

lemma frame_d_positions:
  "processedNodePositions (frames_d st cv (timelineData st) 0 empty_frame) =
     map (\<lambda>i. nodePosition_d st (timelineData st ! i) i (screenX_d st (date (timelineData st ! i))))
       (filter (\<lambda>i. inView_d cv (screenX_d st (date (timelineData st ! i))))
          [0..<length (timelineData st)])"
proof (cases "timelineData st = []")
  case True
  then show ?thesis by (simp add: empty_frame_def)
next
  case False
  then show ?thesis
    by (simp add: frames_d_positions enumerate_nth filter_map comp_def empty_frame_def)
qed

lemma frame_d_nodes:
  "nodes (frames_d st cv (timelineData st) 0 empty_frame) =
     map (\<lambda>i. drawNode_d st (screenX_d st (date (timelineData st ! i))) TIMELINE_Y
                 (title (timelineData st ! i)) (int i = selectedNodeIndex st))
       (filter (\<lambda>i. inView_d cv (screenX_d st (date (timelineData st ! i))))
          [0..<length (timelineData st)])"
proof (cases "timelineData st = []")
  case True
  then show ?thesis by (simp add: empty_frame_def)
next
  case False
  then show ?thesis
    by (simp add: frames_d_nodes enumerate_nth filter_map comp_def empty_frame_def)
qed

lemma screenX_d_frame [simp]:
  "screenX_d (st\<lparr>rendered := r, window_timelineNodePositions := p\<rparr>) d = screenX_d st d"
  by (simp add: screenX_d_def)

lemma drawNode_d_frame [simp]:
  "drawNode_d (st\<lparr>rendered := r, window_timelineNodePositions := p\<rparr>) = drawNode_d st"
  by (intro ext) (simp add: drawNode_d_def getNodeCharLimit_def getFontSize_def)

lemma nodePosition_d_frame [simp]:
  "nodePosition_d (st\<lparr>rendered := r, window_timelineNodePositions := p\<rparr>) = nodePosition_d st"
  by (intro ext) (simp add: nodePosition_d_def getNodeCharLimit_def)

subsection \<open>The rounding error of recentring and of a scroll\<close>

text \<open>
  Recentring computes \<open>vx + (off + (c - (vx + off)))\<close> and a scroll moves \<open>vx + off\<close> to
  \<open>vx + (off + delta)\<close>, every operation rounded. Each rounding is off by at most
  \<open>2^-53\<close> of its exact result.
\<close>

lemma recentre_error:
  fixes vx off c :: rat
  assumes c: "0 \<le> c"
  shows "\<bar>plus_d vx (plus_d off (minus_d (fl c) (plus_d vx off))) - c\<bar>
           \<le> (\<bar>vx\<bar> + \<bar>off\<bar> + c) / 2 ^ 50"
proof -
  define a where "a = vx + off"
  define A where "A = fl a"
  define C where "C = fl c"
  define b where "b = C - A"
  define B where "B = fl b"
  define s where "s = off + B"
  define S where "S = fl s"
  define t where "t = vx + S"
  define T where "T = fl t"
  define ea where "ea = \<bar>A - a\<bar>"
  define ec where "ec = \<bar>C - c\<bar>"
  define eb where "eb = \<bar>B - b\<bar>"
  define es where "es = \<bar>S - s\<bar>"
  define et where "et = \<bar>T - t\<bar>"
  define na where "na = \<bar>a\<bar>"
  define nb where "nb = \<bar>b\<bar>"
  define ns where "ns = \<bar>s\<bar>"
  define nt where "nt = \<bar>t\<bar>"
  define va where "va = \<bar>vx\<bar>"
  define oa where "oa = \<bar>off\<bar>"
  have 1: "ea \<le> na / 2 ^ 53" unfolding ea_def na_def A_def by (rule fl_error)
  have 2: "ec \<le> c / 2 ^ 53" using fl_error [of c] c unfolding ec_def C_def by simp
  have 3: "eb \<le> nb / 2 ^ 53" unfolding eb_def nb_def B_def by (rule fl_error)
  have 4: "es \<le> ns / 2 ^ 53" unfolding es_def ns_def S_def by (rule fl_error)
  have 5: "et \<le> nt / 2 ^ 53" unfolding et_def nt_def T_def by (rule fl_error)
  have 6: "na \<le> va + oa" unfolding na_def va_def oa_def a_def by (rule abs_triangle_ineq)
  have 7: "nb \<le> ec + c + ea + na"
    unfolding nb_def ec_def ea_def na_def b_def using c by linarith
  have 8: "ns \<le> oa + eb + nb" unfolding ns_def oa_def eb_def nb_def s_def by linarith
  have 9: "nt \<le> va + es + ns" unfolding nt_def va_def es_def ns_def t_def by linarith
  have 10: "\<bar>T - c\<bar> \<le> ec + ea + eb + es + et"
    unfolding ec_def ea_def eb_def es_def et_def t_def s_def b_def a_def by linarith
  have nonneg: "0 \<le> va" "0 \<le> oa" by (simp_all add: va_def oa_def)
  from 1 2 3 4 5 6 7 8 9 nonneg c
  have "ec + ea + eb + es + et \<le> (va + oa + c) / 2 ^ 50" by simp
  with 10 have "\<bar>T - c\<bar> \<le> (va + oa + c) / 2 ^ 50" by linarith
  then show ?thesis
    unfolding T_def t_def S_def s_def B_def b_def C_def A_def a_def va_def oa_def
    by (simp add: plus_d_def minus_d_def)
qed

lemma shift_error:
  fixes vx off delta :: rat
  shows "\<bar>plus_d vx (plus_d off delta) - (plus_d vx off + delta)\<bar>
           \<le> (\<bar>vx\<bar> + \<bar>off\<bar> + \<bar>delta\<bar>) / 2 ^ 51"
proof -
  define a where "a = vx + off"
  define A where "A = fl a"
  define s where "s = off + delta"
  define S where "S = fl s"
  define t where "t = vx + S"
  define T where "T = fl t"
  define ea where "ea = \<bar>A - a\<bar>"
  define es where "es = \<bar>S - s\<bar>"
  define et where "et = \<bar>T - t\<bar>"
  define na where "na = \<bar>a\<bar>"
  define ns where "ns = \<bar>s\<bar>"
  define nt where "nt = \<bar>t\<bar>"
  define va where "va = \<bar>vx\<bar>"
  define oa where "oa = \<bar>off\<bar>"
  define da where "da = \<bar>delta\<bar>"
  have 1: "ea \<le> na / 2 ^ 53" unfolding ea_def na_def A_def by (rule fl_error)
  have 2: "es \<le> ns / 2 ^ 53" unfolding es_def ns_def S_def by (rule fl_error)
  have 3: "et \<le> nt / 2 ^ 53" unfolding et_def nt_def T_def by (rule fl_error)
  have 4: "na \<le> va + oa" unfolding na_def va_def oa_def a_def by (rule abs_triangle_ineq)
  have 5: "ns \<le> oa + da" unfolding ns_def da_def oa_def s_def by (rule abs_triangle_ineq)
  have 6: "nt \<le> va + es + ns" unfolding nt_def va_def es_def ns_def t_def by linarith
  have 7: "\<bar>T - (A + delta)\<bar> \<le> ea + es + et"
    unfolding ea_def es_def et_def t_def s_def a_def by linarith
  have nonneg: "0 \<le> va" "0 \<le> oa" "0 \<le> da" by (simp_all add: va_def oa_def da_def)
  from 1 2 3 4 5 6 nonneg
  have "ea + es + et \<le> (va + oa + da) / 2 ^ 51" by simp
  with 7 have "\<bar>T - (A + delta)\<bar> \<le> (va + oa + da) / 2 ^ 51" by linarith
  then show ?thesis
    unfolding T_def t_def S_def s_def A_def a_def va_def oa_def da_def
    by (simp add: plus_d_def)
qed

section \<open>The claims\<close>

subsection \<open>Date labels\<close>

text \<open>
  C1: one label per bucket and frame, where at the Decade tier the bucket is the decade.
  The guard on \<open>drawnDates\<close> gives one label per key (lemma \<open>labels_one_per_key\<close>),
  and at the Month and Year tiers the key is the label string. At the Decade tier the
  key is the first three characters of the label, the apostrophe and both digits of the
  year, followed by \<open>0\<close>, so that only events of one year share a key. The theorem runs
  one render pass at the Decade tier on the collection of the program: it draws eight
  labels for five decades, each year of the 1990s and of the 2020s with a label of its
  own at the X of its decade.
\<close>

theorem decade_labels_per_year:
  "map_option drawnDates
     (Option.bind (drawTimeline ((initial_state 800 600 seed_timelineData)\<lparr>currentZoomLevel := 3\<rparr>))
        rendered) =
   Some [Some (CHR 0x27 # ''870''), Some (CHR 0x27 # ''930''), Some (CHR 0x27 # ''950''),
         Some (CHR 0x27 # ''010''), Some (CHR 0x27 # ''170''), Some (CHR 0x27 # ''200''),
         Some (CHR 0x27 # ''210''), Some (CHR 0x27 # ''220'')]
   \<and> map_option labels
     (Option.bind (drawTimeline ((initial_state 800 600 seed_timelineData)\<lparr>currentZoomLevel := 3\<rparr>))
        rendered) =
   Some [\<lparr>lb_text = Some (CHR 0x27 # ''87''), lb_x = 2827 / 5\<rparr>,
         \<lparr>lb_text = Some (CHR 0x27 # ''93''), lb_x = 826 / 5\<rparr>,
         \<lparr>lb_text = Some (CHR 0x27 # ''95''), lb_x = 826 / 5\<rparr>,
         \<lparr>lb_text = Some (CHR 0x27 # ''01''), lb_x = 4478 / 5\<rparr>,
         \<lparr>lb_text = Some (CHR 0x27 # ''17''), lb_x = 8131 / 5\<rparr>,
         \<lparr>lb_text = Some (CHR 0x27 # ''20''), lb_x = 11783 / 5\<rparr>,
         \<lparr>lb_text = Some (CHR 0x27 # ''21''), lb_x = 11783 / 5\<rparr>,
         \<lparr>lb_text = Some (CHR 0x27 # ''22''), lb_x = 11783 / 5\<rparr>]"
  by (simp add: date_defs draw_defs Let_def cong: let_weak_cong)

subsection \<open>The date scale\<close>




subsection \<open>Culling\<close>

text \<open>
  C3, as amended: with a canvas, a render pass returns, and the position table it
  publishes holds, in the order of the collection, exactly the events whose screen X
  lies strictly between \<open>-200\<close> and the canvas width plus 200; for these and no others
  \<open>drawNode\<close> is called. An event whose screen X is \<open>-200\<close> or the width plus 200 is
  skipped.
\<close>

theorem visible_nodes:
  assumes cv: "canvas st = Some cv"
  shows "\<exists>st' fr. drawTimeline st = Some st' \<and> rendered st' = Some fr
      \<and> window_timelineNodePositions st' = Some (processedNodePositions fr)
      \<and> processedNodePositions fr =
           map (\<lambda>i. nodePosition st (timelineData st ! i) i (screenX st (date (timelineData st ! i))))
             (filter (\<lambda>i. - 200 < screenX st (date (timelineData st ! i))
                           \<and> screenX st (date (timelineData st ! i)) < of_nat (width cv) + 200)
                [0..<length (timelineData st)])
      \<and> nodes fr =
           map (\<lambda>i. drawNode st (screenX st (date (timelineData st ! i))) TIMELINE_Y
                       (title (timelineData st ! i)) (int i = selectedNodeIndex st))
             (filter (\<lambda>i. - 200 < screenX st (date (timelineData st ! i))
                           \<and> screenX st (date (timelineData st ! i)) < of_nat (width cv) + 200)
                [0..<length (timelineData st)])
      \<and> (\<forall>i<length (timelineData st). \<exists>vx.
            getDateX st (date (timelineData st ! i)) = Some vx
            \<and> ((\<exists>p. p \<in> set (processedNodePositions fr) \<and> np_index p = i)
                 \<longleftrightarrow> - 200 < vx + timelineOffsetX st
                      \<and> vx + timelineOffsetX st < of_nat (width cv) + 200))"
proof -
  let ?fr = "frames st cv (timelineData st) 0 empty_frame"
  obtain st' where st': "drawTimeline st = Some st'" "rendered st' = Some ?fr"
      "window_timelineNodePositions st' = Some (processedNodePositions ?fr)"
    using rendered_frame [OF cv] by blast
  have pos: "processedNodePositions ?fr =
           map (\<lambda>i. nodePosition st (timelineData st ! i) i (screenX st (date (timelineData st ! i))))
             (filter (\<lambda>i. - 200 < screenX st (date (timelineData st ! i))
                           \<and> screenX st (date (timelineData st ! i)) < of_nat (width cv) + 200)
                [0..<length (timelineData st)])"
    using frame_positions [of st cv] by (simp add: inView_def)
  have nds: "nodes ?fr =
           map (\<lambda>i. drawNode st (screenX st (date (timelineData st ! i))) TIMELINE_Y
                       (title (timelineData st ! i)) (int i = selectedNodeIndex st))
             (filter (\<lambda>i. - 200 < screenX st (date (timelineData st ! i))
                           \<and> screenX st (date (timelineData st ! i)) < of_nat (width cv) + 200)
                [0..<length (timelineData st)])"
    using frame_nodes [of st cv] by (simp add: inView_def)
  have iff: "\<exists>vx. getDateX st (date (timelineData st ! i)) = Some vx
            \<and> ((\<exists>p. p \<in> set (processedNodePositions ?fr) \<and> np_index p = i)
                 \<longleftrightarrow> - 200 < vx + timelineOffsetX st
                      \<and> vx + timelineOffsetX st < of_nat (width cv) + 200)"
    if i: "i < length (timelineData st)" for i
  proof -
    from i have ne: "timelineData st \<noteq> []" by auto
    have "(\<exists>p. p \<in> set (processedNodePositions ?fr) \<and> np_index p = i)
        \<longleftrightarrow> i \<in> set (map np_index (processedNodePositions ?fr))"
      by auto
    also have "\<dots> \<longleftrightarrow> inView cv (screenX st (date (timelineData st ! i)))"
      using i unfolding frame_position_indices by simp
    finally show ?thesis
      using getDateX_Some [OF ne] by (simp add: inView_def screenX_def)
  qed
  from st' pos nds iff show ?thesis by blast
qed


theorem visible_nodes_witness:
  "canvas (initial_state 800 600 seed_timelineData) = Some \<lparr>width = 800, height = 600\<rparr>
   \<and> (\<exists>st' fr. drawTimeline (initial_state 800 600 seed_timelineData) = Some st'
         \<and> rendered st' = Some fr
         \<and> window_timelineNodePositions st' = Some (processedNodePositions fr)
         \<and> map np_index (processedNodePositions fr) = [0]
         \<and> map dn_x (nodes fr) = [0])"
proof -
  have c: "canvas (initial_state 800 600 seed_timelineData) = Some \<lparr>width = 800, height = 600\<rparr>"
    by (simp add: initial_state_def)
  have n: "[0..<length (timelineData (initial_state 800 600 seed_timelineData))] = [0, 1, 2, 3, 4, 5, 6, 7, 8]"
    by (simp add: initial_state_def seed_timelineData_def upt_rec)
  have x: "map (\<lambda>i. screenX (initial_state 800 600 seed_timelineData)
                     (date (timelineData (initial_state 800 600 seed_timelineData) ! i)))
             [0, 1, 2, 3, 4, 5, 6, 7, 8]
           = [0, 5772, 8001, 15336, 32862, 35415, 36003, 37347, 37914]"
    by (simp add: screenX_def virtualX_def getDateX_def initial_state_def seed_timelineData_def
        date_defs Let_def cong: let_weak_cong)
  from visible_nodes [OF c] obtain st' fr where
    "drawTimeline (initial_state 800 600 seed_timelineData) = Some st'" "rendered st' = Some fr"
    "window_timelineNodePositions st' = Some (processedNodePositions fr)"
    "processedNodePositions fr =
           map (\<lambda>i. nodePosition (initial_state 800 600 seed_timelineData)
                 (timelineData (initial_state 800 600 seed_timelineData) ! i) i
                 (screenX (initial_state 800 600 seed_timelineData)
                    (date (timelineData (initial_state 800 600 seed_timelineData) ! i))))
             (filter (\<lambda>i. - 200 < screenX (initial_state 800 600 seed_timelineData)
                                     (date (timelineData (initial_state 800 600 seed_timelineData) ! i))
                           \<and> screenX (initial_state 800 600 seed_timelineData)
                                     (date (timelineData (initial_state 800 600 seed_timelineData) ! i))
                                < of_nat (width \<lparr>width = 800, height = 600\<rparr>) + 200)
                [0..<length (timelineData (initial_state 800 600 seed_timelineData))])"
    "nodes fr =
           map (\<lambda>i. drawNode (initial_state 800 600 seed_timelineData)
                  (screenX (initial_state 800 600 seed_timelineData)
                    (date (timelineData (initial_state 800 600 seed_timelineData) ! i))) TIMELINE_Y
                  (title (timelineData (initial_state 800 600 seed_timelineData) ! i))
                  (int i = selectedNodeIndex (initial_state 800 600 seed_timelineData)))
             (filter (\<lambda>i. - 200 < screenX (initial_state 800 600 seed_timelineData)
                                     (date (timelineData (initial_state 800 600 seed_timelineData) ! i))
                           \<and> screenX (initial_state 800 600 seed_timelineData)
                                     (date (timelineData (initial_state 800 600 seed_timelineData) ! i))
                                < of_nat (width \<lparr>width = 800, height = 600\<rparr>) + 200)
                [0..<length (timelineData (initial_state 800 600 seed_timelineData))])"
    by blast
  with x c show ?thesis unfolding n by (simp add: drawNode_def Let_def)
qed

text \<open>
  The closed interval of the claim fails at its end: after scrolling the collection of
  the program by \<open>-200\<close> the first event has screen X \<open>-200\<close>, and the table is empty.
\<close>

theorem closed_bound_counterexample:
  "getDateX (initial_state 800 600 seed_timelineData) (Date_ISO 1987 9 28) = Some 0
   \<and> map_option timelineOffsetX (scrollTimeline (initial_state 800 600 seed_timelineData) (- 200))
       = Some (- 200)
   \<and> (- 200 :: rat) \<le> 0 + (- 200) \<and> (0 + (- 200) :: rat) \<le> 800 + 200
   \<and> Option.bind (scrollTimeline (initial_state 800 600 seed_timelineData) (- 200))
        window_timelineNodePositions = Some []"
  by (simp add: date_defs draw_defs Let_def cong: let_weak_cong)

subsection \<open>Selecting a node\<close>

text \<open>
  C4, as amended: with a canvas, an index \<open>k\<close> within the bounds of the collection and
  an offset of magnitude at most \<open>2^1000\<close> (no sum overflows), \<open>selectNode\<close> returns, the
  selected index is \<open>k\<close>, and the screen X of event \<open>k\<close> computed anew in the resulting
  state (its virtual X plus the new offset, in doubles) is half the canvas width up to
  the rounding of the four sums and differences involved: it differs from half the width
  by at most \<open>2^-50\<close> times the sum of the magnitudes of the virtual X, the old offset
  and half the width.
\<close>

theorem select_recentres_rounded:
  assumes cv: "canvas st = Some cv"
      and k: "0 \<le> k" "k < int (length (timelineData st))"
      and range: "\<bar>timelineOffsetX st\<bar> \<le> 2 ^ 1000"
  shows "\<exists>st' vx x. selectNode_d st (Num k) = Some st'
      \<and> selectedNodeIndex st' = k
      \<and> timelineData st' = timelineData st
      \<and> getDateX_d st' (date (timelineData st' ! nat k)) = Some vx
      \<and> nodeX_d (nat k) st' = Some x
      \<and> x = plus_d vx (timelineOffsetX st')
      \<and> \<bar>x - of_nat (width cv) / 2\<bar>
            \<le> (\<bar>vx\<bar> + \<bar>timelineOffsetX st\<bar> + of_nat (width cv) / 2) / 2 ^ 50"
proof -
  from k have ne: "timelineData st \<noteq> []" by auto
  let ?d = "date (timelineData st ! nat k)"
  let ?vx = "virtualX_d st ?d"
  let ?c = "of_nat (width cv) / 2 :: rat"
  let ?delta = "minus_d (divide_d (of_nat (width cv)) 2) (plus_d ?vx (timelineOffsetX st))"
  let ?off = "plus_d (timelineOffsetX st) ?delta"
  let ?st2 = "st\<lparr>selectedNodeIndex := k, timelineOffsetX := ?off\<rparr>"
  have sel: "selectNode_d st (Num k) = drawTimeline_d ?st2"
    using cv k ne by (simp add: selectNode_d_def scrollTimeline_d_def Let_def getDateX_d_Some)
  obtain r p where "drawTimeline_d ?st2 =
      Some (?st2\<lparr>rendered := r, window_timelineNodePositions := p\<rparr>)"
    using drawTimeline_d_returns [of ?st2] by blast
  with sel have res: "selectNode_d st (Num k) =
      Some (?st2\<lparr>rendered := r, window_timelineNodePositions := p\<rparr>)" by simp
  have "0 \<le> ?c" by simp
  from recentre_error [OF this, of ?vx "timelineOffsetX st"]
  have err: "\<bar>plus_d ?vx ?off - ?c\<bar> \<le> (\<bar>?vx\<bar> + \<bar>timelineOffsetX st\<bar> + ?c) / 2 ^ 50"
    by (simp add: divide_d_def)
  show ?thesis
    using res ne err by (simp add: getDateX_d_Some nodeX_d_def)
qed

theorem select_recentres_rounded_witness:
  "canvas (initial_state 800 600 seed_timelineData) = Some \<lparr>width = 800, height = 600\<rparr>
   \<and> (0 :: int) \<le> 3
   \<and> 3 < int (length (timelineData (initial_state 800 600 seed_timelineData)))
   \<and> \<bar>timelineOffsetX (initial_state 800 600 seed_timelineData)\<bar> \<le> 2 ^ 1000
   \<and> (\<exists>st' x. selectNode_d (initial_state 800 600 seed_timelineData) (Num 3) = Some st'
         \<and> selectedNodeIndex st' = 3
         \<and> nodeX_d 3 st' = Some x
         \<and> x = 400)"
proof -
  let ?S = "initial_state 800 600 seed_timelineData"
  have c: "canvas ?S = Some \<lparr>width = 800, height = 600\<rparr>"
    by (simp add: initial_state_def)
  have k: "(0 :: int) \<le> 3" "3 < int (length (timelineData ?S))"
    by (simp_all add: initial_state_def seed_timelineData_def)
  have o: "\<bar>timelineOffsetX ?S\<bar> \<le> 2 ^ 1000"
    by (simp add: initial_state_def)
  have e: "Option.bind (selectNode_d ?S (Num 3)) (nodeX_d 3) = Some 400"
    by (simp add: eval_d Let_def cong: let_weak_cong)
  from select_recentres_rounded [OF c k o] obtain st' x where
    r: "selectNode_d ?S (Num 3) = Some st'" "selectedNodeIndex st' = 3"
       "nodeX_d (nat 3) st' = Some x"
    by blast
  from r(1) r(3) e have "x = 400" by simp
  with r c k o show ?thesis by simp
qed

text \<open>
  The claim as stated, with equality, fails over doubles. On the dataset at the Decade
  tier, canvas 800 wide, after one scroll by 400 (offset 400), selecting event 1 leaves
  its recomputed screen X at \<open>400 + 2^-44\<close>; at the Year tier, selecting event 3 and
  then event 1 leaves it at \<open>400 + 2^-42\<close>.
\<close>

theorem recentring_rounds_counterexample:
  "map_option timelineOffsetX
     (scrollTimeline_d ((initial_state 800 600 seed_timelineData)\<lparr>currentZoomLevel := 3\<rparr>) 400)
     = Some 400
   \<and> Option.bind
       (selectNode_d ((initial_state 800 600 seed_timelineData)
          \<lparr>currentZoomLevel := 3, timelineOffsetX := 400\<rparr>) (Num 1))
       (nodeX_d 1)
     = Some (7036874417766401 / 17592186044416)
   \<and> (7036874417766401 / 17592186044416 :: rat) \<noteq> 800 / 2
   \<and> map_option timelineOffsetX
       (selectNode_d ((initial_state 800 600 seed_timelineData)\<lparr>currentZoomLevel := 2\<rparr>) (Num 3))
     = Some (- (2028379050921165 / 549755813888))
   \<and> Option.bind
       (selectNode_d ((initial_state 800 600 seed_timelineData)
          \<lparr>currentZoomLevel := 2, selectedNodeIndex := 3,
            timelineOffsetX := - (2028379050921165 / 549755813888)\<rparr>) (Num 1))
       (nodeX_d 1)
     = Some (1759218604441601 / 4398046511104)
   \<and> (1759218604441601 / 4398046511104 :: rat) \<noteq> 800 / 2"
  by (simp add: eval_d Let_def cong: let_weak_cong)

subsection \<open>Scrolling\<close>

text \<open>
  C5, as amended: with a canvas, and an offset and a delta of magnitude at most \<open>2^1000\<close>
  (no sum overflows), \<open>scrollTimeline\<close> returns; the new offset is the double nearest
  to the old offset plus the delta, with no clamp; \<open>getDateX\<close> gives every date the
  virtual X it gave before; the render pass draws, and enters in the position table,
  exactly the events whose new screen X is within the culling bounds, each at its new
  screen X; and the new screen X of every event (its virtual X plus the new offset,
  line 186) differs from its old screen X plus the delta by at most \<open>2^-51\<close> times the
  sum of the magnitudes of the virtual X, the old offset and the delta.
\<close>

theorem scroll_translation_rounded:
  assumes cv: "canvas st = Some cv"
      and range: "\<bar>timelineOffsetX st\<bar> \<le> 2 ^ 1000" "\<bar>deltaX\<bar> \<le> 2 ^ 1000"
  shows "\<exists>st' fr. scrollTimeline_d st deltaX = Some st'
      \<and> timelineOffsetX st' = plus_d (timelineOffsetX st) deltaX
      \<and> timelineData st' = timelineData st
      \<and> (\<forall>d. getDateX_d st' d = getDateX_d st d)
      \<and> rendered st' = Some fr
      \<and> window_timelineNodePositions st' = Some (processedNodePositions fr)
      \<and> nodes fr =
           map (\<lambda>i. drawNode_d st' (screenX_d st' (date (timelineData st ! i))) TIMELINE_Y
                       (title (timelineData st ! i)) (int i = selectedNodeIndex st))
             (filter (\<lambda>i. inView_d cv (screenX_d st' (date (timelineData st ! i))))
                [0..<length (timelineData st)])
      \<and> map dn_x (nodes fr) =
           map (\<lambda>i. screenX_d st' (date (timelineData st ! i)))
             (filter (\<lambda>i. inView_d cv (screenX_d st' (date (timelineData st ! i))))
                [0..<length (timelineData st)])
      \<and> processedNodePositions fr =
           map (\<lambda>i. nodePosition_d st' (timelineData st ! i) i
                       (screenX_d st' (date (timelineData st ! i))))
             (filter (\<lambda>i. inView_d cv (screenX_d st' (date (timelineData st ! i))))
                [0..<length (timelineData st)])
      \<and> (\<forall>i<length (timelineData st). \<exists>vx.
            getDateX_d st (date (timelineData st ! i)) = Some vx
            \<and> screenX_d st (date (timelineData st ! i)) = plus_d vx (timelineOffsetX st)
            \<and> screenX_d st' (date (timelineData st ! i))
                = plus_d vx (plus_d (timelineOffsetX st) deltaX)
            \<and> \<bar>screenX_d st' (date (timelineData st ! i))
                 - (screenX_d st (date (timelineData st ! i)) + deltaX)\<bar>
                \<le> (\<bar>vx\<bar> + \<bar>timelineOffsetX st\<bar> + \<bar>deltaX\<bar>) / 2 ^ 51)"
proof -
  let ?st2 = "st\<lparr>timelineOffsetX := plus_d (timelineOffsetX st) deltaX\<rparr>"
  let ?fr = "frames_d ?st2 cv (timelineData ?st2) 0 empty_frame"
  let ?st' = "?st2\<lparr>rendered := Some ?fr,
                   window_timelineNodePositions := Some (processedNodePositions ?fr)\<rparr>"
  have cv2: "canvas ?st2 = Some cv" using cv by simp
  have res: "scrollTimeline_d st deltaX = Some ?st'"
    using drawTimeline_d_canvas [OF cv2] by (simp add: scrollTimeline_d_def)
  have nds: "nodes ?fr =
           map (\<lambda>i. drawNode_d ?st' (screenX_d ?st' (date (timelineData st ! i))) TIMELINE_Y
                       (title (timelineData st ! i)) (int i = selectedNodeIndex st))
             (filter (\<lambda>i. inView_d cv (screenX_d ?st' (date (timelineData st ! i))))
                [0..<length (timelineData st)])"
    using frame_d_nodes [of ?st2 cv] by simp
  have xs: "map dn_x (nodes ?fr) =
           map (\<lambda>i. screenX_d ?st' (date (timelineData st ! i)))
             (filter (\<lambda>i. inView_d cv (screenX_d ?st' (date (timelineData st ! i))))
                [0..<length (timelineData st)])"
    unfolding nds by (simp add: drawNode_d_def Let_def comp_def)
  have pos: "processedNodePositions ?fr =
           map (\<lambda>i. nodePosition_d ?st' (timelineData st ! i) i
                       (screenX_d ?st' (date (timelineData st ! i))))
             (filter (\<lambda>i. inView_d cv (screenX_d ?st' (date (timelineData st ! i))))
                [0..<length (timelineData st)])"
    using frame_d_positions [of ?st2 cv] by simp
  have each: "\<exists>vx. getDateX_d st (date (timelineData st ! i)) = Some vx
            \<and> screenX_d st (date (timelineData st ! i)) = plus_d vx (timelineOffsetX st)
            \<and> screenX_d ?st' (date (timelineData st ! i))
                = plus_d vx (plus_d (timelineOffsetX st) deltaX)
            \<and> \<bar>screenX_d ?st' (date (timelineData st ! i))
                 - (screenX_d st (date (timelineData st ! i)) + deltaX)\<bar>
                \<le> (\<bar>vx\<bar> + \<bar>timelineOffsetX st\<bar> + \<bar>deltaX\<bar>) / 2 ^ 51"
    if i: "i < length (timelineData st)" for i
  proof -
    from i have ne: "timelineData st \<noteq> []" by auto
    let ?vx = "virtualX_d st (date (timelineData st ! i))"
    have "getDateX_d st (date (timelineData st ! i)) = Some ?vx"
      using ne by (rule getDateX_d_Some)
    moreover have "screenX_d st (date (timelineData st ! i)) = plus_d ?vx (timelineOffsetX st)"
      by (simp add: screenX_d_def)
    moreover have "screenX_d ?st' (date (timelineData st ! i))
        = plus_d ?vx (plus_d (timelineOffsetX st) deltaX)"
      by (simp add: screenX_d_def)
    moreover have "\<bar>plus_d ?vx (plus_d (timelineOffsetX st) deltaX)
         - (plus_d ?vx (timelineOffsetX st) + deltaX)\<bar>
        \<le> (\<bar>?vx\<bar> + \<bar>timelineOffsetX st\<bar> + \<bar>deltaX\<bar>) / 2 ^ 51"
      by (rule shift_error)
    ultimately show ?thesis by (simp add: screenX_d_def)
  qed
  have "timelineOffsetX ?st' = plus_d (timelineOffsetX st) deltaX" by simp
  moreover have "timelineData ?st' = timelineData st" by simp
  moreover have "\<forall>d. getDateX_d ?st' d = getDateX_d st d" by simp
  moreover have "rendered ?st' = Some ?fr" by simp
  moreover have "window_timelineNodePositions ?st' = Some (processedNodePositions ?fr)" by simp
  ultimately show ?thesis using res nds xs pos each by blast
qed

theorem scroll_translation_rounded_witness:
  "canvas (initial_state 800 600 seed_timelineData) = Some \<lparr>width = 800, height = 600\<rparr>
   \<and> \<bar>timelineOffsetX (initial_state 800 600 seed_timelineData)\<bar> \<le> 2 ^ 1000
   \<and> \<bar>400 :: rat\<bar> \<le> 2 ^ 1000
   \<and> 0 < length (timelineData (initial_state 800 600 seed_timelineData))
   \<and> (\<exists>st' fr. scrollTimeline_d (initial_state 800 600 seed_timelineData) 400 = Some st'
         \<and> timelineOffsetX st' = 400
         \<and> rendered st' = Some fr
         \<and> window_timelineNodePositions st' = Some (processedNodePositions fr)
         \<and> map dn_x (nodes fr) = [400]
         \<and> map np_index (processedNodePositions fr) = [0]
         \<and> screenX_d (initial_state 800 600 seed_timelineData)
               (date (timelineData (initial_state 800 600 seed_timelineData) ! 0)) = 0
         \<and> screenX_d st' (date (timelineData (initial_state 800 600 seed_timelineData) ! 0)) = 400)"
proof -
  let ?S = "initial_state 800 600 seed_timelineData"
  have c: "canvas ?S = Some \<lparr>width = 800, height = 600\<rparr>"
    by (simp add: initial_state_def)
  have n: "0 < length (timelineData ?S)"
    by (simp add: initial_state_def seed_timelineData_def)
  have o: "\<bar>timelineOffsetX ?S\<bar> \<le> 2 ^ 1000" "\<bar>400 :: rat\<bar> \<le> 2 ^ 1000"
    by (simp_all add: initial_state_def)
  have v: "getDateX_d ?S (date (timelineData ?S ! 0)) = Some 0"
      "timelineOffsetX ?S = 0" "plus_d 0 0 = 0" "plus_d 0 400 = 400"
      "plus_d 0 (plus_d 0 400) = 400"
    by (simp_all add: eval_d Let_def cong: let_weak_cong)
  have e: "map_option timelineOffsetX (scrollTimeline_d ?S 400) = Some 400"
     "map_option (map dn_x) (map_option nodes (Option.bind (scrollTimeline_d ?S 400) rendered))
        = Some [400]"
     "map_option (map np_index)
        (map_option processedNodePositions (Option.bind (scrollTimeline_d ?S 400) rendered))
        = Some [0]"
    by (simp_all add: eval_d Let_def cong: let_weak_cong)
  from scroll_translation_rounded [OF c o] obtain st' fr where
    r: "scrollTimeline_d ?S 400 = Some st'" "rendered st' = Some fr"
       "window_timelineNodePositions st' = Some (processedNodePositions fr)"
    and a: "\<forall>i<length (timelineData ?S). \<exists>vx.
            getDateX_d ?S (date (timelineData ?S ! i)) = Some vx
            \<and> screenX_d ?S (date (timelineData ?S ! i)) = plus_d vx (timelineOffsetX ?S)
            \<and> screenX_d st' (date (timelineData ?S ! i))
                = plus_d vx (plus_d (timelineOffsetX ?S) 400)"
    by blast
  from a n obtain vx where
    "getDateX_d ?S (date (timelineData ?S ! 0)) = Some vx"
    "screenX_d ?S (date (timelineData ?S ! 0)) = plus_d vx (timelineOffsetX ?S)"
    "screenX_d st' (date (timelineData ?S ! 0)) = plus_d vx (plus_d (timelineOffsetX ?S) 400)"
    by blast
  with v have s: "screenX_d ?S (date (timelineData ?S ! 0)) = 0"
    "screenX_d st' (date (timelineData ?S ! 0)) = 400"
    by simp_all
  from r e have "timelineOffsetX st' = 400" "map dn_x (nodes fr) = [400]"
      "map np_index (processedNodePositions fr) = [0]"
    by simp_all
  with r c n o s show ?thesis by simp
qed

text \<open>
  The claim as stated, with a shift of exactly the delta, fails over doubles. On the
  dataset at the Decade tier, canvas 800 wide, offset 0, a scroll by 400 moves the three
  nodes drawn from \<open>0\<close>, \<open>384.8\<close> and \<open>533.4\<close> (the doubles nearest) to \<open>400\<close>, \<open>784.8\<close>
  and \<open>933.4\<close>, and the second has moved by \<open>400 - 2^-44\<close>. At offset \<open>2^53\<close> a scroll
  by 1 leaves the offset where it is.
\<close>

theorem scroll_rounds_counterexample:
  "map_option (map dn_x) (map_option nodes
     (Option.bind
        (drawTimeline_d ((initial_state 800 600 seed_timelineData)\<lparr>currentZoomLevel := 3\<rparr>))
        rendered))
     = Some [0, 6769473189891277 / 17592186044416, 4691836018045747 / 8796093022208]
   \<and> map_option (map dn_x) (map_option nodes
     (Option.bind
        (scrollTimeline_d ((initial_state 800 600 seed_timelineData)\<lparr>currentZoomLevel := 3\<rparr>) 400)
        rendered))
     = Some [400, 3451586901914419 / 4398046511104, 8210273226928947 / 8796093022208]
   \<and> (3451586901914419 / 4398046511104 - 6769473189891277 / 17592186044416 :: rat) \<noteq> 400
   \<and> map_option timelineOffsetX
       (scrollTimeline_d
          ((initial_state 800 600 seed_timelineData)\<lparr>timelineOffsetX := 9007199254740992\<rparr>) 1)
     = Some 9007199254740992"
  by (simp add: eval_d Let_def cong: let_weak_cong)

subsection \<open>The node closest to the centre\<close>



text \<open>
  Two events at equal distance: with events two days apart at the Month tier (virtual X
  0 and 6) and the centre of the view at 3, the earlier one is returned.
\<close>

lemma tie_goes_to_first:
  "findClosestNodeToCenter
     ((initial_state 800 600
        [\<lparr>event_id = ''a'', title = ''A'', date = Date_ISO 2020 1 23\<rparr>,
         \<lparr>event_id = ''b'', title = ''B'', date = Date_ISO 2020 1 25\<rparr>])\<lparr>timelineOffsetX := 397\<rparr>)
   = Some 0"
  by (simp add: findClosestNodeToCenter_def findClosest_each_def getDateX_def initial_state_def
      date_defs Let_def cong: let_weak_cong)

subsection \<open>Zooming\<close>

text \<open>
  C7, as amended: \<open>zoomTimeline\<close> returns, and the new zoom level is the old one
  plus the direction, clamped to the range from 1 (Month) to 3 (Decade) without
  wrapping round. The steps that leave the tier as it is are those that would leave
  the range: direction \<open>-1\<close> (Page Down, which the source calls zooming out) at the
  Month tier and direction \<open>1\<close> (Page Up, which the source calls zooming in) at the
  Decade tier.
\<close>

theorem zoom_clamped:
  "\<exists>st'. zoomTimeline st direction = Some st'
      \<and> currentZoomLevel st' = max 1 (min 3 (currentZoomLevel st + direction))
      \<and> 1 \<le> currentZoomLevel st' \<and> currentZoomLevel st' \<le> 3
      \<and> (currentZoomLevel st = 1 \<and> direction \<le> 0 \<longrightarrow> currentZoomLevel st' = currentZoomLevel st)
      \<and> (currentZoomLevel st = 3 \<and> direction \<ge> 0 \<longrightarrow> currentZoomLevel st' = currentZoomLevel st)"
proof -
  define z where "z = max 1 (min 3 (currentZoomLevel st + direction))"
  have eq: "zoomTimeline st direction = drawTimeline (st\<lparr>currentZoomLevel := z\<rparr>)"
    by (simp add: zoomTimeline_def Let_def z_def max_def min_def)
  obtain r p where
    "drawTimeline (st\<lparr>currentZoomLevel := z\<rparr>) =
       Some (st\<lparr>currentZoomLevel := z, rendered := r, window_timelineNodePositions := p\<rparr>)"
    using drawTimeline_returns [of "st\<lparr>currentZoomLevel := z\<rparr>"] by auto
  with eq have "zoomTimeline st direction =
      Some (st\<lparr>currentZoomLevel := z, rendered := r, window_timelineNodePositions := p\<rparr>)"
    by simp
  moreover have "currentZoomLevel (st\<lparr>currentZoomLevel := z, rendered := r,
      window_timelineNodePositions := p\<rparr>) = z" by simp
  moreover have "1 \<le> z \<and> z \<le> 3" by (simp add: z_def)
  moreover have "currentZoomLevel st = 1 \<and> direction \<le> 0 \<longrightarrow> z = currentZoomLevel st"
    by (auto simp add: z_def)
  moreover have "currentZoomLevel st = 3 \<and> direction \<ge> 0 \<longrightarrow> z = currentZoomLevel st"
    by (auto simp add: z_def)
  ultimately show ?thesis unfolding z_def by metis
qed

theorem zoom_clamped_witness:
  "(currentZoomLevel (initial_state 800 600 seed_timelineData) = 1 \<and> (- 1 :: int) \<le> 0
      \<and> (\<exists>st'. zoomTimeline (initial_state 800 600 seed_timelineData) (- 1) = Some st'
             \<and> currentZoomLevel st' = 1))
   \<and> (currentZoomLevel ((initial_state 800 600 seed_timelineData)\<lparr>currentZoomLevel := 3\<rparr>) = 3
      \<and> (1 :: int) \<ge> 0
      \<and> (\<exists>st'. zoomTimeline ((initial_state 800 600 seed_timelineData)\<lparr>currentZoomLevel := 3\<rparr>) 1 = Some st'
             \<and> currentZoomLevel st' = 3))"
proof -
  have m: "currentZoomLevel (initial_state 800 600 seed_timelineData) = 1"
    by (simp add: initial_state_def)
  have d: "currentZoomLevel ((initial_state 800 600 seed_timelineData)\<lparr>currentZoomLevel := 3\<rparr>) = 3"
    by simp
  from zoom_clamped [of "initial_state 800 600 seed_timelineData" "- 1"] m
  have "\<exists>st'. zoomTimeline (initial_state 800 600 seed_timelineData) (- 1) = Some st'
             \<and> currentZoomLevel st' = 1"
    by auto
  moreover
  from zoom_clamped [of "(initial_state 800 600 seed_timelineData)\<lparr>currentZoomLevel := 3\<rparr>" 1] d
  have "\<exists>st'. zoomTimeline ((initial_state 800 600 seed_timelineData)\<lparr>currentZoomLevel := 3\<rparr>) 1 = Some st'
             \<and> currentZoomLevel st' = 3"
    by auto
  ultimately show ?thesis using m d by simp
qed

text \<open>
  In the source, zooming in is direction \<open>1\<close> and zooming out is direction \<open>-1\<close>
  (the parameter comment of \<open>zoomTimeline\<close> and the key bindings). Zooming in at the
  Month tier leads to the Year tier, and so does zooming out at the Decade tier.
\<close>

theorem zoom_in_at_month_counterexample:
  "currentZoomLevel (initial_state 800 600 seed_timelineData) = 1
   \<and> map_option currentZoomLevel (zoomTimeline (initial_state 800 600 seed_timelineData) 1) = Some 2
   \<and> map_option currentZoomLevel
         (handleKeyDown (initial_state 800 600 seed_timelineData) 800 PageUp) = Some 2
   \<and> currentZoomLevel ((initial_state 800 600 seed_timelineData)\<lparr>currentZoomLevel := 3\<rparr>) = 3
   \<and> map_option currentZoomLevel
         (zoomTimeline ((initial_state 800 600 seed_timelineData)\<lparr>currentZoomLevel := 3\<rparr>) (- 1))
       = Some 2"
proof -
  let ?S = "initial_state 800 600 seed_timelineData"
  have m: "currentZoomLevel ?S = 1" by (simp add: initial_state_def)
  obtain r p where "drawTimeline (?S\<lparr>currentZoomLevel := 2\<rparr>) =
      Some (?S\<lparr>currentZoomLevel := 2, rendered := r, window_timelineNodePositions := p\<rparr>)"
    using drawTimeline_returns [of "?S\<lparr>currentZoomLevel := 2\<rparr>"] by auto
  with m have a: "map_option currentZoomLevel (zoomTimeline ?S 1) = Some 2"
    by (simp add: zoomTimeline_def)
  from a show ?thesis
    using m by (simp add: zoomTimeline_def handleKeyDown_def)
qed

subsection \<open>Truncated titles\<close>

text \<open>
  C8: at each of the three zoom tiers the character budget is 15 (Month), 10 (Year) or
  3 (Decade); the text \<open>drawNode\<close> shows between the box ends is the title cut by
  \<open>truncateText\<close> at that budget, which is the title itself when it is no longer than
  the budget and otherwise its first budget characters followed by three dots.
\<close>

theorem truncated_title:
  assumes "currentZoomLevel st \<in> {1, 2, 3}"
  shows "getNodeCharLimit st =
           (if currentZoomLevel st = 1 then 15 else if currentZoomLevel st = 2 then 10 else 3)
       \<and> dn_middle (drawNode st x y ttl sel) = ''<-|'' @ truncateText ttl (getNodeCharLimit st) @ ''|->''
       \<and> (length ttl \<le> getNodeCharLimit st \<longrightarrow> truncateText ttl (getNodeCharLimit st) = ttl)
       \<and> (length ttl > getNodeCharLimit st \<longrightarrow>
             truncateText ttl (getNodeCharLimit st) = take (getNodeCharLimit st) ttl @ ''...'')"
  using assms by (auto simp add: getNodeCharLimit_def drawNode_def truncateText_def Let_def)

theorem truncated_title_witness:
  "currentZoomLevel ((initial_state 800 600 seed_timelineData)\<lparr>currentZoomLevel := 2\<rparr>) \<in> {1, 2, 3}
   \<and> getNodeCharLimit ((initial_state 800 600 seed_timelineData)\<lparr>currentZoomLevel := 2\<rparr>) = 10
   \<and> length ''Star Trek: Picard'' > 10
   \<and> truncateText ''Star Trek: Picard'' 10 = ''Star Trek:...''
   \<and> length ''Picard'' \<le> 10
   \<and> truncateText ''Picard'' 10 = ''Picard''"
proof -
  have h: "currentZoomLevel ((initial_state 800 600 seed_timelineData)\<lparr>currentZoomLevel := 2\<rparr>) \<in> {1, 2, 3}"
    by (simp add: initial_state_def)
  from truncated_title [OF h, of 0 0 "''Star Trek: Picard''" False]
       truncated_title [OF h, of 0 0 "''Picard''" False] h
  show ?thesis by (simp add: initial_state_def getNodeCharLimit_def truncateText_def)
qed

subsection \<open>Keyboard navigation\<close>

text \<open>
  C9: navigation from no selection selects the first event on right and the last on
  left, and two steps right end on index 1. \<open>navigateNodes\<close> takes the selection from
  \<open>window.selectedNodeIndex\<close>, which is \<open>undefined\<close> (lemma \<open>navigateNodes_undefined\<close>):
  the new index is \<open>NaN\<close> and \<open>selectNode\<close> clears the selection. The theorem runs
  the steps on the collection of the program from its initial state: after one step
  right, after two steps right and after one step left the selected index is \<open>-1\<close>.
\<close>

theorem navigation_selects_nothing:
  "map_option selectedNodeIndex (navigateNodes (initial_state 800 600 seed_timelineData) 1)
     = Some (- 1)
   \<and> map_option selectedNodeIndex
        (Option.bind (navigateNodes (initial_state 800 600 seed_timelineData) 1)
           (\<lambda>s. navigateNodes s 1))
     = Some (- 1)
   \<and> map_option selectedNodeIndex (navigateNodes (initial_state 800 600 seed_timelineData) (- 1))
     = Some (- 1)"
proof -
  let ?S = "initial_state 800 600 seed_timelineData"
  have u: "window_selectedNodeIndex ?S = None" by (simp add: initial_state_def)
  obtain r p where one: "navigateNodes ?S 1 =
      Some (?S\<lparr>selectedNodeIndex := - 1, rendered := r, window_timelineNodePositions := p\<rparr>)"
    using navigateNodes_undefined [OF u, of 1] by blast
  let ?S1 = "?S\<lparr>selectedNodeIndex := - 1, rendered := r, window_timelineNodePositions := p\<rparr>"
  have u1: "window_selectedNodeIndex ?S1 = None" using u by simp
  obtain r' p' where two: "navigateNodes ?S1 1 =
      Some (?S1\<lparr>selectedNodeIndex := - 1, rendered := r', window_timelineNodePositions := p'\<rparr>)"
    using navigateNodes_undefined [OF u1, of 1] by blast
  obtain r'' p'' where left: "navigateNodes ?S (- 1) =
      Some (?S\<lparr>selectedNodeIndex := - 1, rendered := r'', window_timelineNodePositions := p''\<rparr>)"
    using navigateNodes_undefined [OF u, of "- 1"] by blast
  from one two left show ?thesis by simp
qed

subsection \<open>Labels of culled events\<close>

text \<open>
  C10: the label of an event does not depend on its being drawn. With a canvas, for an
  event whose screen X is outside the open interval from \<open>-200\<close> to the canvas width
  plus 200, a render pass returns, the position table has no entry for the event, the
  bucket key of the event is in \<open>drawnDates\<close> after the pass, and when no earlier event
  has that key the label of the event, its date string at its anchor X, is among the
  labels drawn. The labels of the frame are those of the first event of each key,
  whatever the canvas.
\<close>

theorem label_despite_culling:
  assumes cv: "canvas st = Some cv"
      and i: "i < length (timelineData st)"
      and vx: "getDateX st (date (timelineData st ! i)) = Some vx"
      and culled: "\<not> (- 200 < vx + timelineOffsetX st
                      \<and> vx + timelineOffsetX st < of_nat (width cv) + 200)"
  shows "\<exists>st' fr dateString dateKey dateX.
        drawTimeline st = Some st' \<and> rendered st' = Some fr
      \<and> dateLabel st (timelineData st ! i) (vx + timelineOffsetX st) = Some (dateString, dateKey, dateX)
      \<and> dateKey = dateKeyOf st (timelineData st ! i)
      \<and> \<not> (\<exists>p. p \<in> set (processedNodePositions fr) \<and> np_index p = i)
      \<and> dateKey \<in> set (drawnDates fr)
      \<and> ((\<forall>j<i. dateKeyOf st (timelineData st ! j) \<noteq> dateKey) \<longrightarrow>
            \<lparr>lb_text = dateString, lb_x = dateX\<rparr> \<in> set (labels fr))
      \<and> labels fr = map (\<lambda>n. \<lparr>lb_text = dateStringOf st n, lb_x = dateXOf st n\<rparr>)
                       (firsts (dateKeyOf st) [] (timelineData st))"
proof -
  let ?fr = "frames st cv (timelineData st) 0 empty_frame"
  let ?n = "timelineData st ! i"
  from i have ne: "timelineData st \<noteq> []" by auto
  from vx getDateX_Some [OF ne, of "date ?n"] have sx: "screenX st (date ?n) = vx + timelineOffsetX st"
    by (simp add: screenX_def)
  obtain st' where st': "drawTimeline st = Some st'" "rendered st' = Some ?fr"
    using rendered_frame [OF cv] by blast
  have lab: "dateLabel st ?n (vx + timelineOffsetX st) =
      Some (dateStringOf st ?n, dateKeyOf st ?n, dateXOf st ?n)"
    using dateLabel_Some [OF ne, of ?n] sx by simp
  have "i \<notin> set (map np_index (processedNodePositions ?fr))"
    unfolding frame_position_indices using culled sx by (simp add: inView_def)
  then have nopos: "\<not> (\<exists>p. p \<in> set (processedNodePositions ?fr) \<and> np_index p = i)"
    by auto
  have key: "dateKeyOf st ?n \<in> set (drawnDates ?fr)"
    unfolding frame_drawnDates using firsts_keys [of "dateKeyOf st" "[]" "timelineData st"] i
    by auto
  have first: "\<lparr>lb_text = dateStringOf st ?n, lb_x = dateXOf st ?n\<rparr> \<in> set (labels ?fr)"
    if "\<forall>j<i. dateKeyOf st (timelineData st ! j) \<noteq> dateKeyOf st ?n"
  proof -
    from firsts_first [of i "timelineData st" "dateKeyOf st" "[]"] i that
    have "?n \<in> set (firsts (dateKeyOf st) [] (timelineData st))" by simp
    then show ?thesis unfolding frame_labels by simp
  qed
  from st' lab nopos key first frame_labels [of st cv] show ?thesis by blast
qed

theorem label_despite_culling_witness:
  "canvas (initial_state 800 600 seed_timelineData) = Some \<lparr>width = 800, height = 600\<rparr>
   \<and> 1 < length (timelineData (initial_state 800 600 seed_timelineData))
   \<and> getDateX (initial_state 800 600 seed_timelineData)
        (date (timelineData (initial_state 800 600 seed_timelineData) ! 1)) = Some 5772
   \<and> \<not> (- 200 < 5772 + timelineOffsetX (initial_state 800 600 seed_timelineData)
          \<and> 5772 + timelineOffsetX (initial_state 800 600 seed_timelineData)
              < of_nat (width \<lparr>width = 800, height = 600\<rparr>) + 200)
   \<and> dateKeyOf (initial_state 800 600 seed_timelineData) (seed_timelineData ! 0) = Some ''1987-09''
   \<and> dateKeyOf (initial_state 800 600 seed_timelineData) (seed_timelineData ! 1) = Some ''1993-01''
   \<and> (\<exists>st' fr. drawTimeline (initial_state 800 600 seed_timelineData) = Some st'
         \<and> rendered st' = Some fr
         \<and> \<not> (\<exists>p. p \<in> set (processedNodePositions fr) \<and> np_index p = 1)
         \<and> Some ''1993-01'' \<in> set (drawnDates fr)
         \<and> \<lparr>lb_text = Some ''1993-01'', lb_x = 5772\<rparr> \<in> set (labels fr))"
proof -
  let ?S = "initial_state 800 600 seed_timelineData"
  have c: "canvas ?S = Some \<lparr>width = 800, height = 600\<rparr>"
    by (simp add: initial_state_def)
  have i: "1 < length (timelineData ?S)"
    by (simp add: initial_state_def seed_timelineData_def)
  have d: "timelineData ?S = seed_timelineData" "timelineOffsetX ?S = 0"
    by (simp_all add: initial_state_def)
  have v: "getDateX ?S (date (timelineData ?S ! 1)) = Some 5772"
    by (simp add: getDateX_def initial_state_def seed_timelineData_def date_defs Let_def
        cong: let_weak_cong)
  have o: "\<not> (- 200 < 5772 + timelineOffsetX ?S
          \<and> 5772 + timelineOffsetX ?S < of_nat (width \<lparr>width = 800, height = 600\<rparr>) + 200)"
    by (simp add: initial_state_def)
  have l: "dateLabel ?S (timelineData ?S ! 1) (5772 + timelineOffsetX ?S)
             = Some (Some ''1993-01'', Some ''1993-01'', 5772)"
    by (simp add: dateLabel_def initial_state_def seed_timelineData_def date_defs Let_def
        cong: let_weak_cong)
  have k0: "dateKeyOf ?S (seed_timelineData ! 0) = Some ''1987-09''"
    by (simp add: dateKeyOf_def labelOf_def screenX_def virtualX_def dateLabel_def getDateX_def
        initial_state_def seed_timelineData_def date_defs Let_def cong: let_weak_cong)
  have k1: "dateKeyOf ?S (seed_timelineData ! 1) = Some ''1993-01''"
    by (simp add: dateKeyOf_def labelOf_def screenX_def virtualX_def dateLabel_def getDateX_def
        initial_state_def seed_timelineData_def date_defs Let_def cong: let_weak_cong)
  from k0 k1 have e: "\<forall>j<1. dateKeyOf ?S (timelineData ?S ! j) \<noteq> Some ''1993-01''"
    by (simp add: d)
  from label_despite_culling [OF c i v o] obtain st' fr dateString dateKey dateX where
    r: "drawTimeline ?S = Some st'" "rendered st' = Some fr"
       "dateLabel ?S (timelineData ?S ! 1) (5772 + timelineOffsetX ?S) = Some (dateString, dateKey, dateX)"
       "\<not> (\<exists>p. p \<in> set (processedNodePositions fr) \<and> np_index p = 1)"
       "dateKey \<in> set (drawnDates fr)"
       "(\<forall>j<1. dateKeyOf ?S (timelineData ?S ! j) \<noteq> dateKey) \<longrightarrow>
            \<lparr>lb_text = dateString, lb_x = dateX\<rparr> \<in> set (labels fr)"
    by blast
  from r(3) l have "dateString = Some ''1993-01''" "dateKey = Some ''1993-01''" "dateX = 5772"
    by simp_all
  with r e
  have "\<exists>st' fr. drawTimeline ?S = Some st' \<and> rendered st' = Some fr
         \<and> \<not> (\<exists>p. p \<in> set (processedNodePositions fr) \<and> np_index p = 1)
         \<and> Some ''1993-01'' \<in> set (drawnDates fr)
         \<and> \<lparr>lb_text = Some ''1993-01'', lb_x = 5772\<rparr> \<in> set (labels fr)"
    by blast
  with c i v o k0 k1 show ?thesis by blast
qed

end
